theory Spec2Isabelle
  imports Complex_Main "HOL-Library.AList"
begin

section \<open>JavaScript values\<close>

text \<open>
  The primitive values that reach the graph model from query results, which arrive
  as JSON: \<open>undefined\<close> (a missing field), \<open>null\<close>, booleans, numbers and strings.
  Symbols and BigInts do not occur there, and arrays and objects in the place of an
  identifier are outside the model.  A number is either finite or one of the three
  non-finite values; finite numbers are kept as rationals (every double is one), since
  the code only compares them and tests them for finiteness.
\<close>

datatype jsnum = Fin rat | NaN | PosInfinity | NegInfinity

datatype jsvalue = JUndefined | JNull | JBoolean bool | JNumber jsnum | JString string

datatype error = Error string | TypeError string | ReferenceError string

text \<open>Strict equality \<open>===\<close> on primitives: \<open>NaN\<close> equals nothing, itself included.\<close>

fun strict_eq :: "jsvalue \<Rightarrow> jsvalue \<Rightarrow> bool" where
  "strict_eq (JNumber NaN) _ = False"
| "strict_eq _ (JNumber NaN) = False"
| "strict_eq a b = (a = b)"

text \<open>
  \<open>Number(value)\<close> on a primitive.  The conversion of a string is ECMAScript's
  StringToNumber, a built-in of the language and not code of this repository: it is
  the parameter \<open>str2num\<close>.
\<close>

fun Number :: "(string \<Rightarrow> jsnum) \<Rightarrow> jsvalue \<Rightarrow> jsnum" where
  "Number str2num JUndefined = NaN"
| "Number str2num JNull = Fin 0"
| "Number str2num (JBoolean b) = (if b then Fin 1 else Fin 0)"
| "Number str2num (JNumber n) = n"
| "Number str2num (JString s) = str2num s"

fun Number_isFinite :: "jsnum \<Rightarrow> bool" where
  "Number_isFinite (Fin q) = True"
| "Number_isFinite _ = False"

section \<open>Plain objects used as dictionaries\<close>

text \<open>
  A plain object used as a dictionary (\<open>NodeMap\<close>, \<open>EdgeMap\<close>) is an association list
  of its own properties in insertion order, with distinct keys; an assignment
  \<open>m[k] = v\<close> is \<open>AList.update k v m\<close>, which replaces in place or appends.
  \<open>Object.keys\<close> lists array-index keys first, in ascending numeric order, and then the
  other keys in insertion order.
\<close>

definition int_of_digits :: "string \<Rightarrow> int" where
  "int_of_digits s = foldl (\<lambda>n c. 10 * n + (of_char c - 48)) 0 s"

definition is_array_index :: "string \<Rightarrow> bool" where
  "is_array_index s \<longleftrightarrow>
     s \<noteq> [] \<and> list_all (\<lambda>c. c \<in> set ''0123456789'') s \<and>
     (s = ''0'' \<or> hd s \<noteq> CHR ''0'') \<and> int_of_digits s < 2 ^ 32 - 1"

definition Object_keys :: "(string \<times> 'v) list \<Rightarrow> string list" where
  "Object_keys m =
     sort_key int_of_digits (filter is_array_index (map fst m)) @
     filter (\<lambda>k. \<not> is_array_index k) (map fst m)"

text \<open>
  A read \<open>m[k]\<close> finds an own property first, then what every plain object inherits
  from \<open>Object.prototype\<close> (functions, and the prototype object itself under
  \<open>__proto__\<close>: all truthy, none a graph object or a colour), and is \<open>undefined\<close>
  otherwise.
\<close>

definition Object_prototype_keys :: "string list" where
  "Object_prototype_keys =
     [''constructor'', ''__defineGetter__'', ''__defineSetter__'', ''hasOwnProperty'',
      ''__lookupGetter__'', ''__lookupSetter__'', ''isPrototypeOf'', ''propertyIsEnumerable'',
      ''toString'', ''valueOf'', ''__proto__'', ''toLocaleString'']"

datatype 'v property = Own 'v | FromPrototype string | NoProperty

definition get_property :: "(string \<times> 'v) list \<Rightarrow> string \<Rightarrow> 'v property" where
  "get_property m k =
     (case map_of m k of
        Some v \<Rightarrow> Own v
      | None \<Rightarrow> if k \<in> set Object_prototype_keys then FromPrototype k else NoProperty)"

text \<open>\<open>Object.keys(m).map(uid => m[uid])\<close>\<close>

definition Object_values :: "(string \<times> 'v) list \<Rightarrow> 'v list" where
  "Object_values m = List.map_filter (map_of m) (Object_keys m)"

section \<open>Graph objects\<close>

text \<open>
  The fields of a graph object that the store and the configuration read.  \<open>oid\<close>
  stands for the identity of the JavaScript object: two objects are the same object
  (\<open>===\<close>) exactly when the records are equal, \<open>oid\<close> included.
\<close>

record GraphObject =
  oid :: nat
  uid :: string
  labels :: "string list"
  neighborhood :: jsvalue
  instantiated :: bool

type_synonym Node = GraphObject

record Edge = GraphObject +
  sourceUid :: string
  destinationUid :: string

datatype obj = ANode Node | AnEdge Edge


text \<open>The raw records of a query result.\<close>

record NodeData =
  data_identifier :: string
  data_labels :: "string list option"

record EdgeData = NodeData +
  source_node_identifier :: string
  destination_node_identifier :: string

section \<open>GraphConfig, as the store reads and writes it\<close>

datatype ViewModes = DEFAULT | SCHEMA | TABLE | OtherViewMode string

datatype ColorScheme = NEIGHBORHOOD | LABEL | OtherColorScheme string

record 'd EdgeDesign =
  default_design :: 'd
  focused :: 'd
  selected :: 'd

record 'd GraphConfig =
  nodes :: "(string \<times> Node) list"
  edges :: "(string \<times> Edge) list"
  schemaNodes :: "(string \<times> Node) list"
  schemaEdges :: "(string \<times> Edge) list"
  nodeColors :: "(string \<times> string) list"
  colorPalette :: "string list"
  colorScheme :: ColorScheme
  viewMode :: ViewModes
  focusedGraphObject :: "obj option"
  selectedGraphObject :: "obj option"
  edgeDesign :: "'d EdgeDesign"
  nodeCount :: nat
  edgeCount :: nat

section \<open>GraphStore\<close>

datatype EventTypes =
  CONFIG_CHANGE | FOCUS_OBJECT | SELECT_OBJECT | COLOR_SCHEME | VIEW_MODE_CHANGE
| LAYOUT_MODE_CHANGE | SHOW_LABELS | NODE_EXPANSION_REQUEST | GRAPH_DATA_UPDATE

text \<open>
  A listener is a callback; the model keeps its identity and records every call made
  to it, with the arguments and the configuration as it stood at the call.  Callbacks
  are observers: they neither call back into the store nor throw.
\<close>

type_synonym listener = nat

datatype payload =
  FocusObject "obj option"
| SelectObject "obj option"
| ViewModeChange ViewModes
| GraphDataUpdate "Node list" "Edge list" "NodeData list" "EdgeData list"

record EventListeners =
  on_CONFIG_CHANGE :: "listener list"
  on_FOCUS_OBJECT :: "listener list"
  on_SELECT_OBJECT :: "listener list"
  on_COLOR_SCHEME :: "listener list"
  on_VIEW_MODE_CHANGE :: "listener list"
  on_LAYOUT_MODE_CHANGE :: "listener list"
  on_SHOW_LABELS :: "listener list"
  on_NODE_EXPANSION_REQUEST :: "listener list"
  on_GRAPH_DATA_UPDATE :: "listener list"

record 'd GraphStore =
  config :: "'d GraphConfig"
  reservedColorsByLabel :: "(string \<times> string) list"
  reservedColorsByNeighborhood :: "jsvalue list"
  eventListeners :: EventListeners
  calls :: "(listener \<times> payload \<times> 'd GraphConfig) list"

text \<open>
  \<open>new GraphStore(config)\<close> for a \<open>config\<close> that is a \<open>GraphConfig\<close> (for any other
  argument the constructor builds an empty one first, with \<open>GraphConfig\<close>'s
  constructor, which is not among the sources).
\<close>

definition GraphStore_constructor :: "'d GraphConfig \<Rightarrow> 'd GraphStore" where
  "GraphStore_constructor c =
     \<lparr>config = c, reservedColorsByLabel = [], reservedColorsByNeighborhood = [],
      eventListeners = \<lparr>on_CONFIG_CHANGE = [], on_FOCUS_OBJECT = [], on_SELECT_OBJECT = [],
        on_COLOR_SCHEME = [], on_VIEW_MODE_CHANGE = [], on_LAYOUT_MODE_CHANGE = [],
        on_SHOW_LABELS = [], on_NODE_EXPANSION_REQUEST = [], on_GRAPH_DATA_UPDATE = []\<rparr>,
      calls = []\<rparr>"

fun push_listener :: "EventTypes \<Rightarrow> listener \<Rightarrow> EventListeners \<Rightarrow> EventListeners" where
  "push_listener CONFIG_CHANGE cb l = l\<lparr>on_CONFIG_CHANGE := on_CONFIG_CHANGE l @ [cb]\<rparr>"
| "push_listener FOCUS_OBJECT cb l = l\<lparr>on_FOCUS_OBJECT := on_FOCUS_OBJECT l @ [cb]\<rparr>"
| "push_listener SELECT_OBJECT cb l = l\<lparr>on_SELECT_OBJECT := on_SELECT_OBJECT l @ [cb]\<rparr>"
| "push_listener COLOR_SCHEME cb l = l\<lparr>on_COLOR_SCHEME := on_COLOR_SCHEME l @ [cb]\<rparr>"
| "push_listener VIEW_MODE_CHANGE cb l = l\<lparr>on_VIEW_MODE_CHANGE := on_VIEW_MODE_CHANGE l @ [cb]\<rparr>"
| "push_listener LAYOUT_MODE_CHANGE cb l =
     l\<lparr>on_LAYOUT_MODE_CHANGE := on_LAYOUT_MODE_CHANGE l @ [cb]\<rparr>"
| "push_listener SHOW_LABELS cb l = l\<lparr>on_SHOW_LABELS := on_SHOW_LABELS l @ [cb]\<rparr>"
| "push_listener NODE_EXPANSION_REQUEST cb l =
     l\<lparr>on_NODE_EXPANSION_REQUEST := on_NODE_EXPANSION_REQUEST l @ [cb]\<rparr>"
| "push_listener GRAPH_DATA_UPDATE cb l =
     l\<lparr>on_GRAPH_DATA_UPDATE := on_GRAPH_DATA_UPDATE l @ [cb]\<rparr>"

text \<open>
  \<open>addEventListener(eventType, callback)\<close>.  The argument is one of the nine registered
  symbols, or a key that \<open>eventListeners\<close>, an object literal, inherits from
  \<open>Object.prototype\<close> (\<open>toString\<close>, \<open>constructor\<close>, ...), or any other value.  An
  inherited key passes the test, since what it holds is truthy, and fails at \<open>push\<close>,
  which none of the inherited values has.
\<close>

datatype event_key = Registered EventTypes | Inherited | Unregistered

definition addEventListener ::
  "event_key \<Rightarrow> listener \<Rightarrow> 'd GraphStore \<Rightarrow> error + 'd GraphStore" where
  "addEventListener eventType callback s =
     (case eventType of
        Unregistered \<Rightarrow> Inl (Error ''Invalid event type'')
      | Inherited \<Rightarrow> Inl (TypeError ''this.eventListeners[eventType].push is not a function'')
      | Registered t \<Rightarrow>
          Inr (s\<lparr>eventListeners := push_listener t callback (eventListeners s)\<rparr>))"

text \<open>\<open>listeners.forEach(callback => callback(args, this.config))\<close>\<close>

definition notify ::
  "listener list \<Rightarrow> payload \<Rightarrow> 'd GraphStore \<Rightarrow> 'd GraphStore" where
  "notify ls p s = s\<lparr>calls := calls s @ map (\<lambda>cb. (cb, p, config s)) ls\<rparr>"

definition setFocusedObject :: "obj option \<Rightarrow> 'd GraphStore \<Rightarrow> 'd GraphStore" where
  "setFocusedObject graphObject s =
     (let s1 = s\<lparr>config := (config s)\<lparr>focusedGraphObject := graphObject\<rparr>\<rparr>
      in notify (on_FOCUS_OBJECT (eventListeners s1)) (FocusObject graphObject) s1)"

definition setSelectedObject :: "obj option \<Rightarrow> 'd GraphStore \<Rightarrow> 'd GraphStore" where
  "setSelectedObject graphObject s =
     (let s1 = s\<lparr>config := (config s)\<lparr>selectedGraphObject := graphObject\<rparr>\<rparr>
      in notify (on_SELECT_OBJECT (eventListeners s1)) (SelectObject graphObject) s1)"

definition setViewMode :: "ViewModes \<Rightarrow> 'd GraphStore \<Rightarrow> 'd GraphStore" where
  "setViewMode vm s =
     (if vm = viewMode (config s) then s
      else
        let s1 = setFocusedObject None s;
            s2 = setSelectedObject None s1;
            s3 = s2\<lparr>config := (config s2)\<lparr>viewMode := vm\<rparr>\<rparr>
        in notify (on_VIEW_MODE_CHANGE (eventListeners s3)) (ViewModeChange vm) s3)"

definition getNodes :: "'d GraphStore \<Rightarrow> Node list" where
  "getNodes s =
     (let nodeMap =
        (case viewMode (config s) of
           DEFAULT \<Rightarrow> nodes (config s)
         | SCHEMA \<Rightarrow> schemaNodes (config s)
         | _ \<Rightarrow> [])
      in Object_values nodeMap)"

definition getEdges :: "'d GraphStore \<Rightarrow> Edge list" where
  "getEdges s =
     (let edgeMap =
        (case viewMode (config s) of
           DEFAULT \<Rightarrow> edges (config s)
         | SCHEMA \<Rightarrow> schemaEdges (config s)
         | _ \<Rightarrow> [])
      in Object_values edgeMap)"


subsection \<open>Edge styling\<close>





subsection \<open>Node colours\<close>

text \<open>\<open>Array.prototype.indexOf\<close>: the first index holding a strictly equal value.\<close>

fun indexOf :: "jsvalue list \<Rightarrow> jsvalue \<Rightarrow> nat option" where
  "indexOf [] v = None"
| "indexOf (x # xs) v = (if strict_eq x v then Some 0 else map_option Suc (indexOf xs v))"

text \<open>Reading an array element: \<open>undefined\<close> (\<open>None\<close>) out of range.\<close>

definition at_index :: "'a list \<Rightarrow> nat \<Rightarrow> 'a option" where
  "at_index xs i = (if i < length xs then Some (xs ! i) else None)"

fun obj_neighborhood :: "obj \<Rightarrow> jsvalue" where
  "obj_neighborhood (ANode n) = neighborhood n"
| "obj_neighborhood (AnEdge e) = neighborhood e"

text \<open>\<open>typeof v === 'number'\<close>\<close>

fun typeof_number :: "jsvalue \<Rightarrow> bool" where
  "typeof_number (JNumber n) = True"
| "typeof_number _ = False"

text \<open>
  What the colour functions return: a colour string; \<open>undefined\<close> (\<open>NoColor\<close>); or the
  member of \<open>Object.prototype\<close> found under a key (\<open>NotAColor\<close>), which is a function or
  an object and no colour.
\<close>

datatype color = Color string | NotAColor string | NoColor

definition palette_at :: "string list \<Rightarrow> nat \<Rightarrow> color" where
  "palette_at palette i = (case at_index palette i of Some c \<Rightarrow> Color c | None \<Rightarrow> NoColor)"

text \<open>
  \<open>getColorForNodeByNeighborhood(node)\<close>.  The result is the colour, the store after the
  call and the lines written to \<open>console.error\<close>.  A missing node is reported and then
  dereferenced, which throws.
\<close>

definition getColorForNodeByNeighborhood ::
  "obj option \<Rightarrow> 'd GraphStore \<Rightarrow> error + (color \<times> 'd GraphStore \<times> string list)" where
  "getColorForNodeByNeighborhood node s =
     (case node of
        None \<Rightarrow> Inl (TypeError ''Cannot read properties of null (reading neighborhood)'')
      | Some n \<Rightarrow>
          let log1 = (if \<not> typeof_number (obj_neighborhood n)
                      then [''Node must have a neighborhood''] else []);
              reserved = reservedColorsByNeighborhood s;
              (index, s1) =
                (case indexOf reserved (obj_neighborhood n) of
                   Some i \<Rightarrow> (i, s)
                 | None \<Rightarrow>
                     (length reserved,
                      s\<lparr>reservedColorsByNeighborhood := reserved @ [obj_neighborhood n]\<rparr>))
          in if int index > int (length (colorPalette (config s1))) - 1
             then Inr (palette_at (colorPalette (config s1)) 0, s1,
                       log1 @ [''Ran out of colors for neighborhood''])
             else Inr (palette_at (colorPalette (config s1)) index, s1, log1))"

text \<open>
  \<open>node.getDisplayName()\<close> is the first label (unit test of \<open>GraphObject\<close>: "should return
  the first label as its display name"); used as a property key, a missing first label
  reads as the key \<open>undefined\<close>.
\<close>

definition getDisplayName :: "('a GraphObject_scheme) \<Rightarrow> string option" where
  "getDisplayName n = at_index (labels n) 0"

definition property_key :: "string option \<Rightarrow> string" where
  "property_key k = (case k of None \<Rightarrow> ''undefined'' | Some key \<Rightarrow> key)"

text \<open>
  \<open>getColorForNodeByLabel(node)\<close>.  \<open>nodeColors[...]\<close> is returned when it is truthy: a
  non-empty colour string of the map, or the member of \<open>Object.prototype\<close> that a label
  such as \<open>toString\<close> names.
\<close>

definition getColorForNodeByLabel :: "obj option \<Rightarrow> 'd GraphStore \<Rightarrow> color" where
  "getColorForNodeByLabel node s =
     (let defaultColor = Color ''rgb(100, 100, 100)''
      in case node of
           Some (ANode n) \<Rightarrow>
             (case get_property (nodeColors (config s)) (property_key (getDisplayName n)) of
                Own nodeColor \<Rightarrow> if nodeColor \<noteq> [] then Color nodeColor else defaultColor
              | FromPrototype k \<Rightarrow> NotAColor k
              | NoProperty \<Rightarrow> defaultColor)
         | _ \<Rightarrow> defaultColor)"

text \<open>
  \<open>getColorForNode(node)\<close>.  The default branch evaluates \<open>Error('Invalid color scheme',
  colorScheme)\<close>, where \<open>colorScheme\<close> is not a variable in scope: reading it throws a
  \<open>ReferenceError\<close> before \<open>Error\<close> is built.
\<close>

definition getColorForNode ::
  "obj option \<Rightarrow> 'd GraphStore \<Rightarrow> error + (color \<times> 'd GraphStore \<times> string list)" where
  "getColorForNode node s =
     (case colorScheme (config s) of
        NEIGHBORHOOD \<Rightarrow> getColorForNodeByNeighborhood node s
      | LABEL \<Rightarrow> Inr (getColorForNodeByLabel node s, s, [])
      | _ \<Rightarrow> Inl (ReferenceError ''colorScheme is not defined''))"

subsection \<open>Appending graph data\<close>

text \<open>
  The two loops of \<open>appendGraphData\<close>: an entry is skipped when reading its identifier
  in the live map gives something truthy, which a graph object of the map is and so
  is a member of \<open>Object.prototype\<close>; any other entry is pushed.
\<close>

fun pushNew ::
  "(string \<times> 'v) list \<Rightarrow> ('a NodeData_scheme) list \<Rightarrow> ('a NodeData_scheme) list \<Rightarrow>
   ('a NodeData_scheme) list" where
  "pushNew m [] new = new"
| "pushNew m (d # ds) new =
     (if get_property m (data_identifier d) \<noteq> NoProperty then pushNew m ds new
      else pushNew m ds (new @ [d]))"

text \<open>
  \<open>GraphStore.appendGraphData(nodesData, edgesData)\<close>.  An argument that is not an array
  is \<open>None\<close>.  \<open>GraphConfig.appendGraphData\<close> is not among the sources of the store: it is
  the parameter \<open>config_appendGraphData\<close>.  The result is the returned value
  (\<open>None\<close> for \<open>undefined\<close>) and the store after the call.
\<close>

definition appendGraphData ::
  "(NodeData list \<Rightarrow> EdgeData list \<Rightarrow> 'd GraphConfig \<Rightarrow> 'd GraphConfig) \<Rightarrow>
   NodeData list option \<Rightarrow> EdgeData list option \<Rightarrow> 'd GraphStore \<Rightarrow>
   (NodeData list \<times> EdgeData list) option \<times> 'd GraphStore" where
  "appendGraphData config_appendGraphData nodesData edgesData s =
     (let newNodes = (case nodesData of
                        Some ds \<Rightarrow> pushNew (nodes (config s)) ds []
                      | None \<Rightarrow> []);
          newEdges = (case edgesData of
                        Some ds \<Rightarrow> pushNew (edges (config s)) ds []
                      | None \<Rightarrow> [])
      in if newNodes = [] \<and> newEdges = [] then (None, s)
         else
           let s1 = s\<lparr>config := config_appendGraphData newNodes newEdges (config s)\<rparr>;
               s2 = notify (on_GRAPH_DATA_UPDATE (eventListeners s1))
                      (GraphDataUpdate (getNodes s1) (getEdges s1) newNodes newEdges) s1
           in (Some (newNodes, newEdges), s2))"

section \<open>GraphConfig ingestion\<close>

text \<open>
  Modelled from the spec: \<open>GraphConfig.parseNodes\<close>, \<open>parseEdges\<close> and
  \<open>appendGraphData\<close> (src/spanner-config.js is not among the sources).  Each raw entry
  is constructed; an entry whose construction fails (it throws, or the instance is not
  instantiated) is dropped; the result is indexed by identifier, the last entry of an
  identifier winning.  \<open>appendGraphData\<close> merges the parsed entries into the live maps
  and recomputes the counts; it removes nothing and does not look for identifiers that
  are already present.  The constructors of \<open>Node\<close> and \<open>Edge\<close> are parameters.
\<close>

definition parseObjects ::
  "('a NodeData_scheme \<Rightarrow> error + 'b GraphObject_scheme) \<Rightarrow> ('a NodeData_scheme) list \<Rightarrow>
   (string \<times> 'b GraphObject_scheme) list" where
  "parseObjects new_object raw =
     foldl (\<lambda>parsed d.
              (case new_object d of
                 Inl e \<Rightarrow> parsed
               | Inr ob \<Rightarrow>
                   if instantiated ob then AList.update (data_identifier d) ob parsed
                   else parsed))
       [] raw"

definition assign_all :: "(string \<times> 'v) list \<Rightarrow> (string \<times> 'v) list \<Rightarrow> (string \<times> 'v) list" where
  "assign_all target src = foldl (\<lambda>m kv. AList.update (fst kv) (snd kv) m) target src"

definition GraphConfig_appendGraphData ::
  "(NodeData \<Rightarrow> error + Node) \<Rightarrow> (EdgeData \<Rightarrow> error + Edge) \<Rightarrow>
   NodeData list \<Rightarrow> EdgeData list \<Rightarrow> 'd GraphConfig \<Rightarrow> 'd GraphConfig" where
  "GraphConfig_appendGraphData newNode newEdge nodesData edgesData c =
     (let ns = assign_all (nodes c) (parseObjects newNode nodesData);
          es = assign_all (edges c) (parseObjects newEdge edgesData)
      in c\<lparr>nodes := ns, edges := es,
            nodeCount := length (Object_keys ns), edgeCount := length (Object_keys es)\<rparr>)"

text \<open>
  Modelled from the spec: the constructor of \<open>GraphObject\<close> (src/models/graph-object.js
  is not among the sources), as far as the validation of \<open>labels\<close> goes.  The spec asks
  for a non-empty sequence and marks a failed instance not instantiated; the unit test
  "should fail to instantiate without labels" fixes what the constructor does when
  \<open>labels\<close> is not an array: it throws \<open>TypeError('labels must be an Array')\<close>.  The
  first argument is the identity of the new object; its neighbourhood, which the spec
  does not give, starts at 0.
\<close>

definition GraphObject_constructor :: "nat \<Rightarrow> NodeData \<Rightarrow> error + GraphObject" where
  "GraphObject_constructor new d =
     (case data_labels d of
        None \<Rightarrow> Inl (TypeError ''labels must be an Array'')
      | Some ls \<Rightarrow>
          Inr \<lparr>oid = new, uid = data_identifier d, labels = ls,
               neighborhood = JNumber (Fin 0), instantiated = (ls \<noteq> [])\<rparr>)"

section \<open>The legacy Edge model\<close>

text \<open>
  The \<open>Edge\<close> class with \<open>to\<close> and \<open>from\<close>.  Its base class constructor is not among the
  sources: it is the parameter \<open>super\<close>, which receives \<open>label\<close>, \<open>title\<close> and
  \<open>properties\<close> and returns the fields it initialised, or throws.  The class fields
  \<open>target\<close> and \<open>source\<close> are initialised to \<open>undefined\<close> when \<open>super\<close> returns.
\<close>

record 'p EdgeParams =
  p_to :: jsvalue
  p_from :: jsvalue
  p_label :: jsvalue
  p_title :: jsvalue
  p_properties :: 'p

record 'b LegacyEdge =
  base :: 'b
  edge_instantiated :: bool
  target :: jsvalue
  source :: jsvalue

definition isNumber :: "(string \<Rightarrow> jsnum) \<Rightarrow> jsvalue \<Rightarrow> bool" where
  "isNumber str2num v = Number_isFinite (Number str2num v)"

definition Edge_constructor ::
  "(string \<Rightarrow> jsnum) \<Rightarrow> (jsvalue \<times> jsvalue \<times> 'p \<Rightarrow> error + 'b) \<Rightarrow> 'p EdgeParams \<Rightarrow>
   error + 'b LegacyEdge" where
  "Edge_constructor str2num super params =
     (case super (p_label params, p_title params, p_properties params) of
        Inl e \<Rightarrow> Inl e
      | Inr b \<Rightarrow>
          if \<not> isNumber str2num (p_to params) \<or> \<not> isNumber str2num (p_from params)
          then Inr \<lparr>base = b, edge_instantiated = False,
                    target = JUndefined, source = JUndefined\<rparr>
          else Inr \<lparr>base = b, edge_instantiated = True,
                    target = p_to params, source = p_from params\<rparr>)"

section \<open>Schema\<close>

record EdgeDestinationNode =
  edgeTableColumns :: "string list"
  nodeTableColumns :: "string list"
  nodeTableName :: string

record NodeTable =
  name :: string
  labelNames :: "string list"

record EdgeTable = NodeTable +
  sourceNodeTable :: EdgeDestinationNode
  destinationNodeTable :: EdgeDestinationNode

record RawSchema =
  nodeTables :: "NodeTable list"
  edgeTables :: "EdgeTable list"

text \<open>
  The lookups return the table (\<open>None\<close> for \<open>undefined\<close>) and the lines written to
  \<open>console.error\<close>.
\<close>

definition getEdgeFromName :: "RawSchema \<Rightarrow> string \<Rightarrow> EdgeTable option \<times> string list" where
  "getEdgeFromName rawSchema n =
     (case filter (\<lambda>edgeTable. name edgeTable = n) (edgeTables rawSchema) of
        e # _ \<Rightarrow> (Some e, [])
      | [] \<Rightarrow> (None, [''No edgeTable associated with name '' @ n]))"

definition getNodeFromName :: "RawSchema \<Rightarrow> string \<Rightarrow> NodeTable option \<times> string list" where
  "getNodeFromName rawSchema n =
     (case filter (\<lambda>nodeTable. name nodeTable = n) (nodeTables rawSchema) of
        t # _ \<Rightarrow> (Some t, [])
      | [] \<Rightarrow> (None, [''No nodeTable associated with name '' @ n]))"

record Connection =
  isConnected :: bool
  isSource :: bool

definition nodeIsConnectedToEdge ::
  "RawSchema \<Rightarrow> string \<Rightarrow> string \<Rightarrow> Connection \<times> string list" where
  "nodeIsConnectedToEdge rawSchema nodeName edgeName =
     (let connection = \<lparr>isConnected = False, isSource = False\<rparr>
      in case getNodeFromName rawSchema nodeName of
           (None, log1) \<Rightarrow> (connection, log1 @ [''No node found from name '' @ nodeName])
         | (Some nd, log1) \<Rightarrow>
             (case getEdgeFromName rawSchema edgeName of
                (None, log2) \<Rightarrow>
                  (connection, log1 @ log2 @ [''No edge found from name '' @ edgeName])
              | (Some e, log2) \<Rightarrow>
                  (connection\<lparr>isConnected := True,
                     isSource := (nodeTableName (sourceNodeTable e) = name nd)\<rparr>,
                   log1 @ log2)))"

section \<open>The fixture of the unit tests\<close>

text \<open>
  \<open>mockNodesData\<close> and \<open>mockEdgesData\<close> of tests/unit/spanner-config.test.ts, and the
  schema fixture \<open>mockSchemaData\<close>; they are the inputs of the examples below.
\<close>

definition mockNodesData :: "NodeData list" where
  "mockNodesData =
     [\<lparr>data_identifier = ''1'', data_labels = Some [''Person'']\<rparr>,
      \<lparr>data_identifier = ''2'', data_labels = Some [''Company'']\<rparr>]"

definition mockEdgesData :: "EdgeData list" where
  "mockEdgesData =
     [\<lparr>data_identifier = ''edge-1'', data_labels = Some [''WORKS_AT''],
       source_node_identifier = ''1'', destination_node_identifier = ''2''\<rparr>]"

definition mockSchemaData :: RawSchema where
  "mockSchemaData =
     \<lparr>nodeTables =
        [\<lparr>name = ''Person'', labelNames = [''Person'']\<rparr>,
         \<lparr>name = ''Company'', labelNames = [''Company'']\<rparr>],
      edgeTables =
        [\<lparr>name = ''WORKS_AT'', labelNames = [''WORKS_AT''],
          sourceNodeTable = \<lparr>edgeTableColumns = [], nodeTableColumns = [],
                              nodeTableName = ''Person''\<rparr>,
          destinationNodeTable = \<lparr>edgeTableColumns = [], nodeTableColumns = [],
                                   nodeTableName = ''Company''\<rparr>\<rparr>]\<rparr>"

text \<open>
  The graph objects and the configuration that the tests build from the fixture: two
  nodes, one edge from the first to the second, view mode \<open>DEFAULT\<close>, colour scheme
  \<open>NEIGHBORHOOD\<close>.  The palette and the three edge designs are stand-ins for the
  values of \<open>GraphConfig\<close>, which the store only passes on.
\<close>

definition person_node :: Node where
  "person_node = \<lparr>oid = 1, uid = ''1'', labels = [''Person''],
                   neighborhood = JNumber (Fin 0), instantiated = True\<rparr>"

definition company_node :: Node where
  "company_node = \<lparr>oid = 2, uid = ''2'', labels = [''Company''],
                    neighborhood = JNumber (Fin 1), instantiated = True\<rparr>"

definition works_at_edge :: Edge where
  "works_at_edge = \<lparr>oid = 3, uid = ''edge-1'', labels = [''WORKS_AT''],
                     neighborhood = JNumber (Fin 0), instantiated = True,
                     sourceUid = ''1'', destinationUid = ''2''\<rparr>"

definition fixture_config :: "string GraphConfig" where
  "fixture_config =
     \<lparr>nodes = [(''1'', person_node), (''2'', company_node)],
      edges = [(''edge-1'', works_at_edge)],
      schemaNodes = [], schemaEdges = [],
      nodeColors = [(''Person'', ''#1A73E8''), (''Company'', ''#E52592'')],
      colorPalette = [''#1A73E8'', ''#E52592''],
      colorScheme = NEIGHBORHOOD, viewMode = DEFAULT,
      focusedGraphObject = None, selectedGraphObject = None,
      edgeDesign = \<lparr>default_design = ''default'', focused = ''focused'',
                    selected = ''selected''\<rparr>,
      nodeCount = 2, edgeCount = 1\<rparr>"

text \<open>
  A store on that configuration with listeners 1 and 2 on \<open>FOCUS_OBJECT\<close>, 3 on
  \<open>SELECT_OBJECT\<close>, 4 on \<open>VIEW_MODE_CHANGE\<close> and 5 on \<open>GRAPH_DATA_UPDATE\<close>.
\<close>

definition fixture_store :: "string GraphStore" where
  "fixture_store =
     (GraphStore_constructor fixture_config)
       \<lparr>eventListeners :=
          \<lparr>on_CONFIG_CHANGE = [], on_FOCUS_OBJECT = [1, 2], on_SELECT_OBJECT = [3],
           on_COLOR_SCHEME = [], on_VIEW_MODE_CHANGE = [4], on_LAYOUT_MODE_CHANGE = [],
           on_SHOW_LABELS = [], on_NODE_EXPANSION_REQUEST = [],
           on_GRAPH_DATA_UPDATE = [5]\<rparr>\<rparr>"

section \<open>View modes\<close>

lemma Object_values_empty: "Object_values [] = []"
  by (simp add: Object_values_def Object_keys_def List.map_filter_def)

lemma fixture_store_TABLE:
  "viewMode (config (setViewMode TABLE fixture_store)) = TABLE"
  by (simp add: setViewMode_def setFocusedObject_def setSelectedObject_def notify_def
      fixture_store_def fixture_config_def GraphStore_constructor_def Let_def)

text \<open>
  C10.  In every view mode other than \<open>DEFAULT\<close> and \<open>SCHEMA\<close> (the table view, or any
  other value), \<open>getNodes()\<close> and \<open>getEdges()\<close> return the empty array: they do not fail
  and expose neither the live graph nor the schema graph.
\<close>

theorem getNodes_getEdges_other_view_mode:
  assumes "viewMode (config s) \<noteq> DEFAULT" and "viewMode (config s) \<noteq> SCHEMA"
  shows "getNodes s = [] \<and> getEdges s = []"
  using assms
  by (cases "viewMode (config s)") (simp_all add: getNodes_def getEdges_def Object_values_empty)

text \<open>
  In the table view the fixture's store shows nothing, although its live graph holds
  two nodes and an edge, which the default view lists.
\<close>

theorem getNodes_getEdges_other_view_mode_witness:
  "viewMode (config (setViewMode TABLE fixture_store)) \<noteq> DEFAULT \<and>
   viewMode (config (setViewMode TABLE fixture_store)) \<noteq> SCHEMA \<and>
   getNodes (setViewMode TABLE fixture_store) = [] \<and>
   getEdges (setViewMode TABLE fixture_store) = [] \<and>
   getNodes fixture_store = [person_node, company_node] \<and>
   getEdges fixture_store = [works_at_edge]"
proof -
  have a: "viewMode (config (setViewMode TABLE fixture_store)) \<noteq> DEFAULT"
    and b: "viewMode (config (setViewMode TABLE fixture_store)) \<noteq> SCHEMA"
    by (simp_all add: fixture_store_TABLE)
  have c: "getNodes fixture_store = [person_node, company_node]"
    by (simp add: getNodes_def fixture_store_def fixture_config_def GraphStore_constructor_def
        Object_values_def Object_keys_def is_array_index_def int_of_digits_def List.map_filter_def)
  have d: "getEdges fixture_store = [works_at_edge]"
    by (simp add: getEdges_def fixture_store_def fixture_config_def GraphStore_constructor_def
        Object_values_def Object_keys_def is_array_index_def int_of_digits_def List.map_filter_def)
  from getNodes_getEdges_other_view_mode [OF a b] a b c d show ?thesis by simp
qed

text \<open>
  C1, as stated, fails where the requested mode is the current one: \<open>setViewMode\<close>
  returns at once and the focus stays.
\<close>

theorem setViewMode_same_mode_counterexample:
  "focusedGraphObject (config (setViewMode DEFAULT
      (setFocusedObject (Some (ANode person_node)) fixture_store))) = Some (ANode person_node)"
  by (simp add: setViewMode_def setFocusedObject_def notify_def
      fixture_store_def fixture_config_def GraphStore_constructor_def Let_def)

text \<open>
  C1, amended.  When the requested mode differs from the current one, \<open>setViewMode\<close>
  leaves focus and selection \<open>null\<close> and the mode switched, whatever they were before.
  It clears the focus and notifies the focus listeners, clears the selection and
  notifies the selection listeners (both still see the old mode), then switches the
  mode and notifies the view-mode listeners; nothing else of the store changes.  When
  the requested mode is the current one, the call changes nothing and notifies nobody,
  so focus and selection keep their values.
\<close>

theorem setViewMode_clears_switches_notifies:
  "(vm \<noteq> viewMode (config s) \<longrightarrow>
      focusedGraphObject (config (setViewMode vm s)) = None \<and>
      selectedGraphObject (config (setViewMode vm s)) = None \<and>
      viewMode (config (setViewMode vm s)) = vm \<and>
      setViewMode vm s =
        s\<lparr>config := (config s)\<lparr>focusedGraphObject := None, selectedGraphObject := None,
                                viewMode := vm\<rparr>,
          calls := calls s @
            map (\<lambda>cb. (cb, FocusObject None, (config s)\<lparr>focusedGraphObject := None\<rparr>))
              (on_FOCUS_OBJECT (eventListeners s)) @
            map (\<lambda>cb. (cb, SelectObject None,
                        (config s)\<lparr>focusedGraphObject := None, selectedGraphObject := None\<rparr>))
              (on_SELECT_OBJECT (eventListeners s)) @
            map (\<lambda>cb. (cb, ViewModeChange vm,
                        (config s)\<lparr>focusedGraphObject := None, selectedGraphObject := None,
                                   viewMode := vm\<rparr>))
              (on_VIEW_MODE_CHANGE (eventListeners s))\<rparr>) \<and>
   (vm = viewMode (config s) \<longrightarrow> setViewMode vm s = s)"
  by (simp add: setViewMode_def setFocusedObject_def setSelectedObject_def notify_def Let_def)

text \<open>
  With focus on the first node and selection on the edge, switching to the schema view
  clears both and calls the listeners in the order focus (1, 2), selection (3),
  view mode (4), after the calls of the two earlier mutators (1, 2 and 3); asking for
  the current mode changes nothing.
\<close>

theorem setViewMode_clears_switches_notifies_witness:
  "SCHEMA \<noteq> viewMode (config (setSelectedObject (Some (AnEdge works_at_edge))
      (setFocusedObject (Some (ANode person_node)) fixture_store))) \<and>
   focusedGraphObject (config (setViewMode SCHEMA (setSelectedObject (Some (AnEdge works_at_edge))
      (setFocusedObject (Some (ANode person_node)) fixture_store)))) = None \<and>
   selectedGraphObject (config (setViewMode SCHEMA (setSelectedObject (Some (AnEdge works_at_edge))
      (setFocusedObject (Some (ANode person_node)) fixture_store)))) = None \<and>
   viewMode (config (setViewMode SCHEMA (setSelectedObject (Some (AnEdge works_at_edge))
      (setFocusedObject (Some (ANode person_node)) fixture_store)))) = SCHEMA \<and>
   map fst (calls (setViewMode SCHEMA (setSelectedObject (Some (AnEdge works_at_edge))
      (setFocusedObject (Some (ANode person_node)) fixture_store)))) = [1, 2, 3, 1, 2, 3, 4] \<and>
   setViewMode DEFAULT fixture_store = fixture_store"
  using setViewMode_clears_switches_notifies [of SCHEMA "setSelectedObject (Some (AnEdge works_at_edge))
      (setFocusedObject (Some (ANode person_node)) fixture_store)"]
    setViewMode_clears_switches_notifies [of DEFAULT fixture_store]
  by (simp add: setFocusedObject_def setSelectedObject_def notify_def
      fixture_store_def fixture_config_def GraphStore_constructor_def Let_def)

section \<open>Edge styling\<close>



section \<open>Schema connection\<close>

lemma filter_head_find:
  "(case filter P xs of [] \<Rightarrow> None | x # _ \<Rightarrow> Some x) = List.find P xs"
  by (induction xs) auto

lemma getNodeFromName_find:
  "fst (getNodeFromName sch n) = List.find (\<lambda>t. name t = n) (nodeTables sch)"
  using filter_head_find [of "\<lambda>t. name t = n" "nodeTables sch"]
  by (simp add: getNodeFromName_def split: list.splits)

lemma getEdgeFromName_find:
  "fst (getEdgeFromName sch n) = List.find (\<lambda>t. name t = n) (edgeTables sch)"
  using filter_head_find [of "\<lambda>t. name t = n" "edgeTables sch"]
  by (simp add: getEdgeFromName_def split: list.splits)

text \<open>
  C9.  \<open>nodeIsConnectedToEdge(nodeName, edgeName)\<close>: \<open>isConnected\<close> holds exactly when a
  node table of that name and an edge table of that name both exist; when they do,
  with \<open>t\<close> and \<open>e\<close> the first tables of those names, \<open>isSource\<close> holds exactly when
  the node table name of \<open>e\<close>'s source is the name of \<open>t\<close>; when \<open>isConnected\<close> is
  false, so is \<open>isSource\<close>.
\<close>

theorem nodeIsConnectedToEdge_connection:
  "(isConnected (fst (nodeIsConnectedToEdge sch nodeName edgeName)) \<longleftrightarrow>
      (\<exists>t \<in> set (nodeTables sch). name t = nodeName) \<and>
      (\<exists>e \<in> set (edgeTables sch). name e = edgeName)) \<and>
   (\<forall>t e. List.find (\<lambda>t. name t = nodeName) (nodeTables sch) = Some t \<and>
          List.find (\<lambda>e. name e = edgeName) (edgeTables sch) = Some e \<longrightarrow>
      isConnected (fst (nodeIsConnectedToEdge sch nodeName edgeName)) \<and>
      (isSource (fst (nodeIsConnectedToEdge sch nodeName edgeName)) \<longleftrightarrow>
         nodeTableName (sourceNodeTable e) = name t)) \<and>
   (\<not> isConnected (fst (nodeIsConnectedToEdge sch nodeName edgeName)) \<longrightarrow>
      \<not> isSource (fst (nodeIsConnectedToEdge sch nodeName edgeName)))"
proof -
  obtain nd l1 where n: "getNodeFromName sch nodeName = (nd, l1)" by (cases "getNodeFromName sch nodeName")
  obtain ed l2 where e: "getEdgeFromName sch edgeName = (ed, l2)" by (cases "getEdgeFromName sch edgeName")
  have nf: "nd = List.find (\<lambda>t. name t = nodeName) (nodeTables sch)"
    using getNodeFromName_find [of sch nodeName] n by simp
  have ef: "ed = List.find (\<lambda>t. name t = edgeName) (edgeTables sch)"
    using getEdgeFromName_find [of sch edgeName] e by simp
  have nn: "(nd \<noteq> None) = (\<exists>t \<in> set (nodeTables sch). name t = nodeName)"
    unfolding nf by (auto simp add: find_None_iff)
  have ee: "(ed \<noteq> None) = (\<exists>t \<in> set (edgeTables sch). name t = edgeName)"
    unfolding ef by (auto simp add: find_None_iff)
  have r: "fst (nodeIsConnectedToEdge sch nodeName edgeName) =
      (case nd of
         None \<Rightarrow> \<lparr>isConnected = False, isSource = False\<rparr>
       | Some t \<Rightarrow>
           (case ed of
              None \<Rightarrow> \<lparr>isConnected = False, isSource = False\<rparr>
            | Some e \<Rightarrow> \<lparr>isConnected = True,
                         isSource = (nodeTableName (sourceNodeTable e) = name t)\<rparr>))"
    by (simp add: nodeIsConnectedToEdge_def n e Let_def split: option.splits)
  show ?thesis
    unfolding r using nn ee nf ef
    by (cases nd; cases ed) auto
qed

text \<open>
  On the schema fixture: \<open>Person\<close> is the source of \<open>WORKS_AT\<close>, \<open>Company\<close> is connected
  but not the source, and an unknown node or edge name gives no connection.
\<close>

theorem nodeIsConnectedToEdge_connection_witness:
  "fst (nodeIsConnectedToEdge mockSchemaData ''Person'' ''WORKS_AT'') =
     \<lparr>isConnected = True, isSource = True\<rparr> \<and>
   fst (nodeIsConnectedToEdge mockSchemaData ''Company'' ''WORKS_AT'') =
     \<lparr>isConnected = True, isSource = False\<rparr> \<and>
   nodeIsConnectedToEdge mockSchemaData ''Product'' ''WORKS_AT'' =
     (\<lparr>isConnected = False, isSource = False\<rparr>,
      [''No nodeTable associated with name Product'', ''No node found from name Product'']) \<and>
   fst (nodeIsConnectedToEdge mockSchemaData ''Person'' ''OWNS'') =
     \<lparr>isConnected = False, isSource = False\<rparr>"
  using nodeIsConnectedToEdge_connection [of mockSchemaData "''Person''" "''WORKS_AT''"]
    nodeIsConnectedToEdge_connection [of mockSchemaData "''Product''" "''WORKS_AT''"]
  by (simp add: nodeIsConnectedToEdge_def getNodeFromName_def getEdgeFromName_def
      mockSchemaData_def)

section \<open>Node colours and configuration failures\<close>

lemmas fixture_defs = fixture_store_def fixture_config_def GraphStore_constructor_def
  person_node_def company_node_def works_at_edge_def

lemma indexOf_Some:
  "indexOf r v = Some i \<Longrightarrow> i < length r \<and> strict_eq (r ! i) v \<and> (\<forall>j<i. \<not> strict_eq (r ! j) v)"
proof (induction r arbitrary: i)
  case Nil
  then show ?case by simp
next
  case (Cons x xs)
  show ?case
  proof (cases "strict_eq x v")
    case True
    with Cons.prems show ?thesis by simp
  next
    case False
    with Cons.prems obtain k where k: "indexOf xs v = Some k" and i: "i = Suc k"
      by auto
    from Cons.IH [OF k] False i show ?thesis
      by (auto simp add: less_Suc_eq_0_disj)
  qed
qed

lemma indexOf_None: "indexOf r v = None \<longleftrightarrow> list_all (\<lambda>x. \<not> strict_eq x v) r"
  by (induction r) auto

lemma indexOf_append_new:
  "indexOf r v = None \<Longrightarrow> strict_eq v v \<Longrightarrow> indexOf (r @ [v]) v = Some (length r)"
  by (induction r) (auto split: if_splits)

lemma byNeighborhood_result:
  "getColorForNodeByNeighborhood (Some n) s =
     (let r = reservedColorsByNeighborhood s; v = obj_neighborhood n;
          pal = colorPalette (config s);
          slot = (case indexOf r v of Some i \<Rightarrow> i | None \<Rightarrow> length r)
      in Inr (if slot < length pal then Color (pal ! slot)
              else if pal = [] then NoColor else Color (pal ! 0),
              if indexOf r v = None then s\<lparr>reservedColorsByNeighborhood := r @ [v]\<rparr> else s,
              (if \<not> typeof_number v then [''Node must have a neighborhood''] else []) @
              (if length pal \<le> slot then [''Ran out of colors for neighborhood''] else [])))"
  by (cases "indexOf (reservedColorsByNeighborhood s) (obj_neighborhood n)")
     (auto simp add: getColorForNodeByNeighborhood_def palette_at_def at_index_def Let_def)

lemma byNeighborhood_again:
  assumes "strict_eq (obj_neighborhood n) (obj_neighborhood n)"
    and "getColorForNodeByNeighborhood (Some n) s = Inr (c, s', diag)"
  shows "getColorForNodeByNeighborhood (Some n) s' = Inr (c, s', diag)"
proof (cases "indexOf (reservedColorsByNeighborhood s) (obj_neighborhood n)")
  case None
  from indexOf_append_new [OF None assms(1)]
  have i: "indexOf (reservedColorsByNeighborhood s @ [obj_neighborhood n]) (obj_neighborhood n) =
      Some (length (reservedColorsByNeighborhood s))" .
  from assms(2) None
  have s': "s' = s\<lparr>reservedColorsByNeighborhood :=
      reservedColorsByNeighborhood s @ [obj_neighborhood n]\<rparr>"
    by (auto simp add: byNeighborhood_result Let_def)
  show ?thesis
    using assms(2) None i unfolding s'
    by (auto simp add: byNeighborhood_result Let_def)
next
  case (Some i)
  with assms(2) have "s' = s" by (auto simp add: byNeighborhood_result Let_def)
  with assms(2) show ?thesis by simp
qed

lemma byLabel_found:
  "labels n = l # ls \<Longrightarrow> map_of (nodeColors (config s)) l = Some col \<Longrightarrow> col \<noteq> [] \<Longrightarrow>
   getColorForNodeByLabel (Some (ANode n)) s = Color col"
  by (simp add: getColorForNodeByLabel_def getDisplayName_def at_index_def property_key_def
      get_property_def)

lemma byLabel_absent:
  "labels n = l # ls \<Longrightarrow> map_of (nodeColors (config s)) l = None \<Longrightarrow>
   l \<notin> set Object_prototype_keys \<Longrightarrow>
   getColorForNodeByLabel (Some (ANode n)) s = Color ''rgb(100, 100, 100)''"
  by (simp add: getColorForNodeByLabel_def getDisplayName_def at_index_def property_key_def
      get_property_def)

lemma byLabel_inherited:
  "labels n = l # ls \<Longrightarrow> map_of (nodeColors (config s)) l = None \<Longrightarrow>
   l \<in> set Object_prototype_keys \<Longrightarrow>
   getColorForNodeByLabel (Some (ANode n)) s = NotAColor l"
  by (simp add: getColorForNodeByLabel_def getDisplayName_def at_index_def property_key_def
      get_property_def)

lemma byLabel_not_a_node:
  "getColorForNodeByLabel None s = Color ''rgb(100, 100, 100)'' \<and>
   getColorForNodeByLabel (Some (AnEdge e)) s = Color ''rgb(100, 100, 100)''"
  by (simp add: getColorForNodeByLabel_def)

text \<open>
  What \<open>getColorForNode\<close> does, for every input.
  Under \<open>NEIGHBORHOOD\<close> it is \<open>getColorForNodeByNeighborhood\<close>: the slot of a node is the
  index of the first recorded neighbourhood strictly equal to the node's, and the next
  free index, where the neighbourhood is then recorded, if there is none; the colour is
  the palette entry of the slot, and palette[0] (\<open>undefined\<close> for an empty palette)
  together with the diagnostic "Ran out of colors for neighborhood" exactly when the
  slot is beyond the palette; asking again for a neighbourhood (not \<open>NaN\<close>, which is
  strictly equal to nothing) gives the same colour and records nothing more.
  Under \<open>LABEL\<close> it reads the first label in \<open>nodeColors\<close>: the label's colour when the
  map has one; the neutral gray \<open>rgb(100, 100, 100)\<close> when the map has none and the label
  names no member of \<open>Object.prototype\<close>; that member, which is no colour, when it does.
  For any other colour scheme it raises an error, and so does \<open>addEventListener\<close> for an
  event type that is not registered, while a registered one is accepted.
\<close>

lemma getColorForNode_behaviour:
  "(colorScheme (config s) = NEIGHBORHOOD \<longrightarrow>
      getColorForNode node s = getColorForNodeByNeighborhood node s \<and>
      (\<forall>n. node = Some n \<longrightarrow>
         (let r = reservedColorsByNeighborhood s; v = obj_neighborhood n;
              pal = colorPalette (config s);
              slot = (case indexOf r v of Some i \<Rightarrow> i | None \<Rightarrow> length r)
          in (\<exists>diag.
                getColorForNode node s =
                  Inr (if slot < length pal then Color (pal ! slot)
                       else if pal = [] then NoColor else Color (pal ! 0),
                       if indexOf r v = None
                       then s\<lparr>reservedColorsByNeighborhood := r @ [v]\<rparr> else s,
                       diag) \<and>
                (''Ran out of colors for neighborhood'' \<in> set diag \<longleftrightarrow> length pal \<le> slot)) \<and>
             (indexOf r v = None \<longleftrightarrow> list_all (\<lambda>x. \<not> strict_eq x v) r) \<and>
             (\<forall>i. indexOf r v = Some i \<longrightarrow>
                i < length r \<and> strict_eq (r ! i) v \<and> (\<forall>j<i. \<not> strict_eq (r ! j) v)) \<and>
             (\<forall>c s' diag. strict_eq v v \<and> getColorForNode node s = Inr (c, s', diag) \<longrightarrow>
                getColorForNode node s' = Inr (c, s', diag))))) \<and>
   (colorScheme (config s) = LABEL \<longrightarrow>
      getColorForNode node s = Inr (getColorForNodeByLabel node s, s, []) \<and>
      (\<forall>n l ls col. node = Some (ANode n) \<and> labels n = l # ls \<and>
           map_of (nodeColors (config s)) l = Some col \<and> col \<noteq> [] \<longrightarrow>
         getColorForNodeByLabel node s = Color col) \<and>
      (\<forall>n l ls. node = Some (ANode n) \<and> labels n = l # ls \<and>
           map_of (nodeColors (config s)) l = None \<and> l \<notin> set Object_prototype_keys \<longrightarrow>
         getColorForNodeByLabel node s = Color ''rgb(100, 100, 100)'') \<and>
      (\<forall>n l ls. node = Some (ANode n) \<and> labels n = l # ls \<and>
           map_of (nodeColors (config s)) l = None \<and> l \<in> set Object_prototype_keys \<longrightarrow>
         getColorForNodeByLabel node s = NotAColor l)) \<and>
   (colorScheme (config s) \<noteq> NEIGHBORHOOD \<and> colorScheme (config s) \<noteq> LABEL \<longrightarrow>
      (\<exists>e. getColorForNode node s = Inl e)) \<and>
   (\<forall>k. (\<forall>t. k \<noteq> Registered t) \<longrightarrow> (\<exists>e. addEventListener k callback s = Inl e)) \<and>
   (\<forall>t. \<exists>s'. addEventListener (Registered t) callback s = Inr s')"
proof -
  have nb: "colorScheme (config s) = NEIGHBORHOOD \<Longrightarrow>
      getColorForNode node s = getColorForNodeByNeighborhood node s" for node and s :: "'a GraphStore"
    by (simp add: getColorForNode_def)
  have n1: "colorScheme (config s) = NEIGHBORHOOD \<Longrightarrow> node = Some n \<Longrightarrow>
      (let r = reservedColorsByNeighborhood s; v = obj_neighborhood n;
              pal = colorPalette (config s);
              slot = (case indexOf r v of Some i \<Rightarrow> i | None \<Rightarrow> length r)
          in (\<exists>diag.
                getColorForNode node s =
                  Inr (if slot < length pal then Color (pal ! slot)
                       else if pal = [] then NoColor else Color (pal ! 0),
                       if indexOf r v = None
                       then s\<lparr>reservedColorsByNeighborhood := r @ [v]\<rparr> else s,
                       diag) \<and>
                (''Ran out of colors for neighborhood'' \<in> set diag \<longleftrightarrow> length pal \<le> slot)))" for n
    by (simp add: nb byNeighborhood_result Let_def)
  have n2: "colorScheme (config s) = NEIGHBORHOOD \<Longrightarrow> node = Some n \<Longrightarrow>
      strict_eq (obj_neighborhood n) (obj_neighborhood n) \<Longrightarrow>
      getColorForNode node s = Inr (c, s', diag) \<Longrightarrow>
      getColorForNode node s' = Inr (c, s', diag)" for n c s' diag
  proof -
    assume a: "colorScheme (config s) = NEIGHBORHOOD" "node = Some n"
      "strict_eq (obj_neighborhood n) (obj_neighborhood n)"
      "getColorForNode node s = Inr (c, s', diag)"
    then have b: "getColorForNodeByNeighborhood (Some n) s = Inr (c, s', diag)"
      by (simp add: nb)
    then have "config s' = config s"
      by (auto simp add: byNeighborhood_result Let_def split: if_splits)
    with a have "colorScheme (config s') = NEIGHBORHOOD" by simp
    with byNeighborhood_again [OF a(3) b] a(2) show ?thesis by (simp add: nb)
  qed
  have lb: "colorScheme (config s) = LABEL \<Longrightarrow>
      getColorForNode node s = Inr (getColorForNodeByLabel node s, s, [])"
    by (simp add: getColorForNode_def)
  have ot: "colorScheme (config s) \<noteq> NEIGHBORHOOD \<Longrightarrow> colorScheme (config s) \<noteq> LABEL \<Longrightarrow>
      \<exists>e. getColorForNode node s = Inl e"
    by (cases "colorScheme (config s)") (simp_all add: getColorForNode_def)
  have ev: "\<exists>e. addEventListener k callback s = Inl e" if "\<forall>t. k \<noteq> Registered t" for k
    using that by (cases k) (simp_all add: addEventListener_def)
  have ev2: "\<exists>s'. addEventListener (Registered t) callback s = Inr s'" for t
    by (simp add: addEventListener_def)
  show ?thesis
    unfolding Let_def
    apply (intro conjI impI allI)
    subgoal by (rule nb)
    subgoal for n using n1 [of n] by (simp add: Let_def)
    subgoal by (simp add: indexOf_None)
    subgoal using indexOf_Some by blast
    subgoal using indexOf_Some by blast
    subgoal using indexOf_Some by blast
    subgoal for n c s' diag using n2 [of n c s' diag] by blast
    subgoal by (rule lb)
    subgoal using byLabel_found by blast
    subgoal using byLabel_absent by blast
    subgoal using byLabel_inherited by blast
    subgoal using ot by blast
    subgoal for k using ev [of k] by blast
    subgoal by (rule ev2)
    done
qed

text \<open>
  On the fixture (palette of two colours): the first neighbourhood takes slot 0, the
  second slot 1, the first is found again in slot 0, a third falls back to palette[0]
  with the diagnostic; under \<open>LABEL\<close> a \<open>Company\<close> node gets its label's colour and a
  node of an unknown label the gray; an unknown scheme and an unregistered event type
  raise.
\<close>

lemma getColorForNode_behaviour_fixture:
  "getColorForNode (Some (ANode person_node)) fixture_store =
     Inr (Color ''#1A73E8'',
          fixture_store\<lparr>reservedColorsByNeighborhood := [JNumber (Fin 0)]\<rparr>, []) \<and>
   getColorForNode (Some (ANode company_node))
       (fixture_store\<lparr>reservedColorsByNeighborhood := [JNumber (Fin 0)]\<rparr>) =
     Inr (Color ''#E52592'',
          fixture_store\<lparr>reservedColorsByNeighborhood := [JNumber (Fin 0), JNumber (Fin 1)]\<rparr>,
          []) \<and>
   getColorForNode (Some (ANode person_node))
       (fixture_store\<lparr>reservedColorsByNeighborhood := [JNumber (Fin 0), JNumber (Fin 1)]\<rparr>) =
     Inr (Color ''#1A73E8'',
          fixture_store\<lparr>reservedColorsByNeighborhood := [JNumber (Fin 0), JNumber (Fin 1)]\<rparr>,
          []) \<and>
   getColorForNode (Some (ANode (person_node\<lparr>neighborhood := JNumber (Fin 2)\<rparr>)))
       (fixture_store\<lparr>reservedColorsByNeighborhood := [JNumber (Fin 0), JNumber (Fin 1)]\<rparr>) =
     Inr (Color ''#1A73E8'',
          fixture_store\<lparr>reservedColorsByNeighborhood :=
            [JNumber (Fin 0), JNumber (Fin 1), JNumber (Fin 2)]\<rparr>,
          [''Ran out of colors for neighborhood'']) \<and>
   getColorForNode (Some (ANode company_node))
       (fixture_store\<lparr>config := fixture_config\<lparr>colorScheme := LABEL\<rparr>\<rparr>) =
     Inr (Color ''#E52592'', fixture_store\<lparr>config := fixture_config\<lparr>colorScheme := LABEL\<rparr>\<rparr>,
          []) \<and>
   getColorForNode (Some (ANode (person_node\<lparr>labels := [''Product'']\<rparr>)))
       (fixture_store\<lparr>config := fixture_config\<lparr>colorScheme := LABEL\<rparr>\<rparr>) =
     Inr (Color ''rgb(100, 100, 100)'',
          fixture_store\<lparr>config := fixture_config\<lparr>colorScheme := LABEL\<rparr>\<rparr>, []) \<and>
   getColorForNode (Some (ANode person_node))
       (fixture_store\<lparr>config := fixture_config\<lparr>colorScheme := OtherColorScheme ''size''\<rparr>\<rparr>) =
     Inl (ReferenceError ''colorScheme is not defined'') \<and>
   addEventListener Unregistered 7 fixture_store = Inl (Error ''Invalid event type'') \<and>
   addEventListener Inherited 7 fixture_store =
     Inl (TypeError ''this.eventListeners[eventType].push is not a function'')"
  by (simp add: getColorForNode_def getColorForNodeByNeighborhood_def getColorForNodeByLabel_def
      getDisplayName_def property_key_def at_index_def palette_at_def get_property_def
      Object_prototype_keys_def addEventListener_def Let_def fixture_defs)

text \<open>
  C5.  By the spec, \<open>getColorForNode\<close> under \<open>LABEL\<close> answers the neutral gray whenever
  the node's label is absent from \<open>nodeColors\<close>.  The code does not give it for a label that names a member
  of \<open>Object.prototype\<close>: for a node labelled \<open>toString\<close>, with no colour recorded for
  that label, \<open>getColorForNode\<close> returns the inherited \<open>toString\<close> function, which is
  neither the gray nor a colour, while a node of any other unknown label gets the gray.
\<close>

theorem getColorForNode_inherited_label:
  "map_of (nodeColors (config (fixture_store\<lparr>config := fixture_config\<lparr>colorScheme := LABEL\<rparr>\<rparr>)))
     ''toString'' = None \<and>
   getColorForNode (Some (ANode (person_node\<lparr>labels := [''toString'']\<rparr>)))
       (fixture_store\<lparr>config := fixture_config\<lparr>colorScheme := LABEL\<rparr>\<rparr>) =
     Inr (NotAColor ''toString'',
          fixture_store\<lparr>config := fixture_config\<lparr>colorScheme := LABEL\<rparr>\<rparr>, []) \<and>
   getColorForNode (Some (ANode (person_node\<lparr>labels := [''Product'']\<rparr>)))
       (fixture_store\<lparr>config := fixture_config\<lparr>colorScheme := LABEL\<rparr>\<rparr>) =
     Inr (Color ''rgb(100, 100, 100)'',
          fixture_store\<lparr>config := fixture_config\<lparr>colorScheme := LABEL\<rparr>\<rparr>, [])"
  by (simp add: getColorForNode_def getColorForNodeByLabel_def getDisplayName_def
      property_key_def at_index_def get_property_def Object_prototype_keys_def fixture_defs)

text \<open>
  C6, as stated, fails under \<open>NEIGHBORHOOD\<close>: the first request for a neighbourhood
  records it in \<open>reservedColorsByNeighborhood\<close>.
\<close>

theorem getColorForNode_mutates_counterexample:
  "getColorForNode (Some (ANode person_node)) fixture_store =
     Inr (Color ''#1A73E8'',
          fixture_store\<lparr>reservedColorsByNeighborhood := [JNumber (Fin 0)]\<rparr>, []) \<and>
   reservedColorsByNeighborhood fixture_store = [] \<and>
   fixture_store\<lparr>reservedColorsByNeighborhood := [JNumber (Fin 0)]\<rparr> \<noteq> fixture_store"
  by (simp add: getColorForNode_def getColorForNodeByNeighborhood_def palette_at_def at_index_def Let_def
      fixture_defs)

text \<open>
  C6, amended.  \<open>getColorForNode\<close> never changes the GraphConfig, the listeners, the
  calls made to them or \<open>reservedColorsByLabel\<close>.  Under \<open>LABEL\<close> it changes nothing at
  all.  Under \<open>NEIGHBORHOOD\<close> the only field it may change is
  \<open>reservedColorsByNeighborhood\<close>: the node's neighbourhood is appended when no recorded
  value is strictly equal to it, and the array is left as it is otherwise.
\<close>

theorem getColorForNode_frame:
  assumes "getColorForNode node s = Inr (c, s', diag)"
  shows "config s' = config s \<and> eventListeners s' = eventListeners s \<and> calls s' = calls s \<and>
     reservedColorsByLabel s' = reservedColorsByLabel s \<and>
     (colorScheme (config s) = LABEL \<longrightarrow> s' = s) \<and>
     (colorScheme (config s) = NEIGHBORHOOD \<longrightarrow>
        s' = s\<lparr>reservedColorsByNeighborhood := reservedColorsByNeighborhood s'\<rparr> \<and>
        (\<forall>n. node = Some n \<longrightarrow>
           reservedColorsByNeighborhood s' =
             (if list_all (\<lambda>x. \<not> strict_eq x (obj_neighborhood n))
                   (reservedColorsByNeighborhood s)
              then reservedColorsByNeighborhood s @ [obj_neighborhood n]
              else reservedColorsByNeighborhood s)))"
proof (cases "colorScheme (config s)")
  case NEIGHBORHOOD
  with assms obtain n where n: "node = Some n"
    by (cases node) (auto simp add: getColorForNode_def getColorForNodeByNeighborhood_def)
  from assms NEIGHBORHOOD n
  have r: "getColorForNodeByNeighborhood (Some n) s = Inr (c, s', diag)"
    by (simp add: getColorForNode_def)
  show ?thesis
    using r NEIGHBORHOOD n indexOf_None [of "reservedColorsByNeighborhood s" "obj_neighborhood n"]
    by (auto simp add: byNeighborhood_result Let_def split: if_splits)
next
  case LABEL
  with assms show ?thesis by (simp add: getColorForNode_def)
next
  case (OtherColorScheme x)
  with assms show ?thesis by (simp add: getColorForNode_def)
qed

text \<open>
  With neighbourhood 0 recorded, the colour of a node of neighbourhood 1 is the second
  palette entry; the configuration is the same afterwards and the neighbourhood is
  recorded.
\<close>

theorem getColorForNode_frame_witness:
  "getColorForNode (Some (ANode company_node))
       (fixture_store\<lparr>reservedColorsByNeighborhood := [JNumber (Fin 0)]\<rparr>) =
     Inr (Color ''#E52592'',
          fixture_store\<lparr>reservedColorsByNeighborhood := [JNumber (Fin 0), JNumber (Fin 1)]\<rparr>,
          []) \<and>
   config (fixture_store\<lparr>reservedColorsByNeighborhood := [JNumber (Fin 0), JNumber (Fin 1)]\<rparr>) =
     config (fixture_store\<lparr>reservedColorsByNeighborhood := [JNumber (Fin 0)]\<rparr>) \<and>
   colorScheme (config (fixture_store\<lparr>reservedColorsByNeighborhood := [JNumber (Fin 0)]\<rparr>)) =
     NEIGHBORHOOD"
proof -
  have a: "getColorForNode (Some (ANode company_node))
       (fixture_store\<lparr>reservedColorsByNeighborhood := [JNumber (Fin 0)]\<rparr>) =
     Inr (Color ''#E52592'',
          fixture_store\<lparr>reservedColorsByNeighborhood := [JNumber (Fin 0), JNumber (Fin 1)]\<rparr>,
          [])"
    by (simp add: getColorForNode_def getColorForNodeByNeighborhood_def palette_at_def at_index_def Let_def
        fixture_defs)
  have b: "colorScheme (config (fixture_store\<lparr>reservedColorsByNeighborhood := [JNumber (Fin 0)]\<rparr>)) =
     NEIGHBORHOOD"
    by (simp add: fixture_defs)
  from getColorForNode_frame [OF a] a b show ?thesis by simp
qed

section \<open>Construction of graph objects\<close>

text \<open>
  What \<open>isNumber\<close> accepts among the primitives: \<open>undefined\<close>, \<open>NaN\<close> and the infinities
  are rejected; \<open>null\<close> and the booleans coerce to a finite number and are accepted, as
  is every finite number; a string is accepted when StringToNumber makes it finite.  If
  the base constructor throws, so does the \<open>Edge\<close> constructor.
\<close>

lemma isNumber_primitives:
  "\<not> isNumber N JUndefined \<and> isNumber N JNull \<and> isNumber N (JBoolean b) \<and>
   isNumber N (JNumber (Fin q)) \<and> \<not> isNumber N (JNumber NaN) \<and>
   \<not> isNumber N (JNumber PosInfinity) \<and> \<not> isNumber N (JNumber NegInfinity) \<and>
   (isNumber N (JString x) \<longleftrightarrow> Number_isFinite (N x))"
  by (simp add: isNumber_def)

lemma Edge_constructor_super_throws:
  "super (p_label p, p_title p, p_properties p) = Inl e \<Longrightarrow> Edge_constructor N super p = Inl e"
  by (simp add: Edge_constructor_def)

text \<open>
  C7.  Once the base constructor has returned, the legacy \<open>Edge\<close> constructor returns an
  instance and does not throw.  The instance is instantiated exactly when \<open>to\<close> and
  \<open>from\<close> both coerce to a finite number (\<open>Number.isFinite(Number(value))\<close>); when it
  is not, \<open>target\<close> and \<open>source\<close> are left \<open>undefined\<close>; when it is, they are \<open>to\<close> and
  \<open>from\<close>.  Both endpoints are required: a missing (\<open>undefined\<close>) \<open>to\<close> or \<open>from\<close> gives
  an instance that is not instantiated.
\<close>

theorem Edge_constructor_validation:
  assumes "super (p_label p, p_title p, p_properties p) = Inr b"
  shows "\<exists>e. Edge_constructor N super p = Inr e \<and> base e = b \<and>
     (edge_instantiated e \<longleftrightarrow>
        Number_isFinite (Number N (p_to p)) \<and> Number_isFinite (Number N (p_from p))) \<and>
     (\<not> edge_instantiated e \<longrightarrow> target e = JUndefined \<and> source e = JUndefined) \<and>
     (edge_instantiated e \<longrightarrow> target e = p_to p \<and> source e = p_from p) \<and>
     (p_to p = JUndefined \<or> p_from p = JUndefined \<longrightarrow> \<not> edge_instantiated e)"
  using assms by (auto simp add: Edge_constructor_def isNumber_def)

text \<open>
  Whatever StringToNumber is: a missing \<open>to\<close> and a \<open>NaN\<close> \<open>from\<close> each give an edge that
  is not instantiated, with \<open>target\<close> and \<open>source\<close> unset; two finite numbers give an
  instantiated edge.
\<close>

theorem Edge_constructor_validation_witness:
  "\<forall>N.
     Edge_constructor N (\<lambda>x. Inr (fst x))
       \<lparr>p_to = JUndefined, p_from = JNumber (Fin 2), p_label = JString ''WORKS_AT'',
        p_title = JUndefined, p_properties = ()\<rparr> =
     Inr \<lparr>base = JString ''WORKS_AT'', edge_instantiated = False,
          target = JUndefined, source = JUndefined\<rparr> \<and>
     Edge_constructor N (\<lambda>x. Inr (fst x))
       \<lparr>p_to = JNumber (Fin 1), p_from = JNumber NaN, p_label = JString ''WORKS_AT'',
        p_title = JUndefined, p_properties = ()\<rparr> =
     Inr \<lparr>base = JString ''WORKS_AT'', edge_instantiated = False,
          target = JUndefined, source = JUndefined\<rparr> \<and>
     Edge_constructor N (\<lambda>x. Inr (fst x))
       \<lparr>p_to = JNumber (Fin 1), p_from = JNumber (Fin 2), p_label = JString ''WORKS_AT'',
        p_title = JUndefined, p_properties = ()\<rparr> =
     Inr \<lparr>base = JString ''WORKS_AT'', edge_instantiated = True,
          target = JNumber (Fin 1), source = JNumber (Fin 2)\<rparr>"
  using Edge_constructor_validation
      [of "\<lambda>x. Inr (fst x)"
        "\<lparr>p_to = JUndefined, p_from = JNumber (Fin 2), p_label = JString ''WORKS_AT'',
          p_title = JUndefined, p_properties = ()\<rparr>" "JString ''WORKS_AT''"]
  by (simp add: Edge_constructor_def isNumber_def)

lemma parseObjects_keys_aux:
  "fst ` set (foldl (\<lambda>parsed d.
              (case f d of
                 Inl e \<Rightarrow> parsed
               | Inr ob \<Rightarrow>
                   if instantiated ob then AList.update (data_identifier d) ob parsed
                   else parsed)) acc raw) =
   fst ` set acc \<union> {data_identifier d | d. d \<in> set raw \<and> (\<exists>ob. f d = Inr ob \<and> instantiated ob)}"
proof (induction raw arbitrary: acc)
  case Nil
  then show ?case by simp
next
  case (Cons d ds)
  show ?case
    by (cases "f d") (auto simp add: Cons.IH dom_update)
qed

lemma parseObjects_keys:
  "fst ` set (parseObjects f raw) =
     {data_identifier d | d. d \<in> set raw \<and> (\<exists>ob. f d = Inr ob \<and> instantiated ob)}"
  by (simp add: parseObjects_def parseObjects_keys_aux)

lemma parseObjects_instantiated_aux:
  "list_all (\<lambda>kv. instantiated (snd kv)) acc \<Longrightarrow>
   list_all (\<lambda>kv. instantiated (snd kv)) (foldl (\<lambda>parsed d.
              (case f d of
                 Inl e \<Rightarrow> parsed
               | Inr ob \<Rightarrow>
                   if instantiated ob then AList.update (data_identifier d) ob parsed
                   else parsed)) acc raw)"
proof (induction raw arbitrary: acc)
  case Nil
  then show ?case by simp
next
  case (Cons d ds)
  have u: "list_all (\<lambda>kv. instantiated (snd kv)) (AList.update k ob acc)"
    if "instantiated ob" for k ob
    using Cons.prems that by (induction acc) auto
  show ?case
    by (cases "f d") (auto simp add: Cons.prems u intro!: Cons.IH)
qed

lemma parseObjects_instantiated:
  "list_all (\<lambda>kv. instantiated (snd kv)) (parseObjects f raw)"
  by (simp add: parseObjects_def parseObjects_instantiated_aux)

text \<open>
  C8, as stated, fails where \<open>labels\<close> is missing: the constructor throws, as the unit
  test "should fail to instantiate without labels" expects.
\<close>

theorem GraphObject_constructor_throws_counterexample:
  "GraphObject_constructor 1 \<lparr>data_identifier = ''1'', data_labels = None\<rparr> =
     Inl (TypeError ''labels must be an Array'')"
  by (simp add: GraphObject_constructor_def)

text \<open>
  C8, amended.  \<open>labels\<close> must be a non-empty sequence or construction fails.  When
  \<open>labels\<close> is not an array the constructor throws \<open>TypeError('labels must be an
  Array')\<close>; when it is an empty array the instance is marked not instantiated; otherwise
  the instance is instantiated and carries the labels.  A caller that drops the entries
  whose construction throws or is not instantiated, as the batch parser does, keeps
  exactly the entries with a non-empty \<open>labels\<close> array, whatever else the batch holds.
\<close>

theorem GraphObject_constructor_labels:
  "(data_labels d = None \<longrightarrow>
      GraphObject_constructor new d = Inl (TypeError ''labels must be an Array'')) \<and>
   (\<forall>ls. data_labels d = Some ls \<longrightarrow>
      (\<exists>g. GraphObject_constructor new d = Inr g \<and> labels g = ls \<and>
           uid g = data_identifier d \<and> (instantiated g \<longleftrightarrow> ls \<noteq> []))) \<and>
   fst ` set (parseObjects (\<lambda>d. GraphObject_constructor (alloc d) d) raw) =
     {data_identifier d | d. d \<in> set raw \<and> (\<exists>l ls. data_labels d = Some (l # ls))} \<and>
   list_all (\<lambda>kv. instantiated (snd kv))
     (parseObjects (\<lambda>d. GraphObject_constructor (alloc d) d) raw)"
proof -
  have a: "(\<exists>ob. GraphObject_constructor (alloc d) d = Inr ob \<and> instantiated ob) \<longleftrightarrow>
      (\<exists>l ls. data_labels d = Some (l # ls))" for d
    by (cases "data_labels d") (auto simp add: GraphObject_constructor_def neq_Nil_conv)
  have k: "fst ` set (parseObjects (\<lambda>d. GraphObject_constructor (alloc d) d) raw) =
     {data_identifier d | d. d \<in> set raw \<and> (\<exists>l ls. data_labels d = Some (l # ls))}"
    by (simp add: parseObjects_keys a)
  have c: "data_labels d = None \<longrightarrow>
      GraphObject_constructor new d = Inl (TypeError ''labels must be an Array'')"
    by (simp add: GraphObject_constructor_def)
  have e: "\<forall>ls. data_labels d = Some ls \<longrightarrow>
      (\<exists>g. GraphObject_constructor new d = Inr g \<and> labels g = ls \<and>
           uid g = data_identifier d \<and> (instantiated g \<longleftrightarrow> ls \<noteq> []))"
    by (simp add: GraphObject_constructor_def)
  from c e k parseObjects_instantiated show ?thesis by blast
qed

text \<open>
  The three outcomes, and a batch of the two fixture nodes followed by an entry without
  labels and an entry with no label: the two fixture nodes are kept.
\<close>

theorem GraphObject_constructor_labels_witness:
  "GraphObject_constructor 7 \<lparr>data_identifier = ''9'', data_labels = Some [''foo'', ''bar'']\<rparr> =
     Inr \<lparr>oid = 7, uid = ''9'', labels = [''foo'', ''bar''], neighborhood = JNumber (Fin 0),
          instantiated = True\<rparr> \<and>
   GraphObject_constructor 7 \<lparr>data_identifier = ''9'', data_labels = Some []\<rparr> =
     Inr \<lparr>oid = 7, uid = ''9'', labels = [], neighborhood = JNumber (Fin 0),
          instantiated = False\<rparr> \<and>
   GraphObject_constructor 7 \<lparr>data_identifier = ''9'', data_labels = None\<rparr> =
     Inl (TypeError ''labels must be an Array'') \<and>
   map fst (parseObjects (\<lambda>d. GraphObject_constructor 7 d)
     (mockNodesData @ [\<lparr>data_identifier = ''3'', data_labels = None\<rparr>,
                       \<lparr>data_identifier = ''4'', data_labels = Some []\<rparr>])) = [''1'', ''2'']"
  using GraphObject_constructor_labels
      [of "\<lparr>data_identifier = ''9'', data_labels = Some [''foo'', ''bar'']\<rparr>" 7 "\<lambda>d. 7"
        "mockNodesData @ [\<lparr>data_identifier = ''3'', data_labels = None\<rparr>,
                          \<lparr>data_identifier = ''4'', data_labels = Some []\<rparr>]"]
  by (simp add: GraphObject_constructor_def parseObjects_def mockNodesData_def)

section \<open>Appending graph data\<close>

text \<open>
  The loops of \<open>appendGraphData\<close> keep, in order, the entries whose identifier is neither
  a key of the live map nor the name of a member of \<open>Object.prototype\<close>.  Merging keeps
  the keys of a map distinct, and the count that \<open>Object.keys(...).length\<close> gives is the
  number of entries.
\<close>

lemma get_property_NoProperty:
  "get_property m k = NoProperty \<longleftrightarrow> k \<notin> fst ` set m \<and> k \<notin> set Object_prototype_keys"
  using map_of_eq_None_iff [of m k]
  by (auto simp add: get_property_def split: option.splits)

lemma pushNew_filter:
  "pushNew m ds new =
     new @ filter (\<lambda>d. data_identifier d \<notin> fst ` set m \<and>
                         data_identifier d \<notin> set Object_prototype_keys) ds"
  by (induction ds arbitrary: new) (simp_all add: get_property_NoProperty)

lemma assign_all_keys: "fst ` set (assign_all m src) = fst ` set m \<union> fst ` set src"
  unfolding assign_all_def
  by (induction src arbitrary: m) (auto simp add: dom_update)

lemma assign_all_distinct: "distinct (map fst m) \<Longrightarrow> distinct (map fst (assign_all m src))"
  unfolding assign_all_def
  by (induction src arbitrary: m) (auto simp add: distinct_update)

lemma length_Object_keys: "length (Object_keys m) = length m"
  using sum_length_filter_compl [of is_array_index "map fst m"]
  by (simp add: Object_keys_def)

text \<open>
  What \<open>GraphStore.appendGraphData(nodesData, edgesData)\<close> does, for any behaviour of
  the configuration it delegates to: the new nodes are the entries of \<open>nodesData\<close> whose
  identifier is neither a key of the live node map nor the name of a member of
  \<open>Object.prototype\<close>, the new edges those of \<open>edgesData\<close> likewise (an argument that is
  not an array gives none).  If there are neither, the call returns nothing, leaves the
  whole store as it is and calls no listener.  Otherwise it replaces the configuration
  by what \<open>GraphConfig.appendGraphData\<close> makes of the new entries, then calls each
  graph-data-update listener, in registration order, with the current nodes and edges,
  the new entries and the configuration, changes nothing else, and returns the new
  entries.
\<close>

lemma appendGraphData_behaviour:
  "(let newNodes = filter (\<lambda>d. data_identifier d \<notin> fst ` set (nodes (config s)) \<and>
                                 data_identifier d \<notin> set Object_prototype_keys)
                     (case nodesData of Some ds \<Rightarrow> ds | None \<Rightarrow> []);
        newEdges = filter (\<lambda>d. data_identifier d \<notin> fst ` set (edges (config s)) \<and>
                                 data_identifier d \<notin> set Object_prototype_keys)
                     (case edgesData of Some ds \<Rightarrow> ds | None \<Rightarrow> []);
        s1 = s\<lparr>config := config_appendGraphData newNodes newEdges (config s)\<rparr>
    in (newNodes = [] \<and> newEdges = [] \<longrightarrow>
          appendGraphData config_appendGraphData nodesData edgesData s = (None, s)) \<and>
       (newNodes \<noteq> [] \<or> newEdges \<noteq> [] \<longrightarrow>
          appendGraphData config_appendGraphData nodesData edgesData s =
            (Some (newNodes, newEdges),
             s1\<lparr>calls := calls s @
                   map (\<lambda>cb. (cb, GraphDataUpdate (getNodes s1) (getEdges s1) newNodes newEdges,
                               config s1))
                     (on_GRAPH_DATA_UPDATE (eventListeners s))\<rparr>)))"
  by (cases nodesData; cases edgesData)
     (auto simp add: appendGraphData_def pushNew_filter notify_def Let_def)

text \<open>
  On the fixture's store: of the two fixture nodes and a third node, and the fixture's
  edge, only the third node is new; it is delegated, and listener 5 is called once with
  the three nodes and the edge of the live graph, the new entry and the configuration
  that holds them; resubmitting the fixture itself, or passing no arrays, changes
  nothing.
\<close>

lemma appendGraphData_behaviour_fixture:
  "appendGraphData
          (GraphConfig_appendGraphData (GraphObject_constructor 10)
             (\<lambda>d. Inr \<lparr>oid = 11, uid = data_identifier d, labels = [''WORKS_AT''],
                       neighborhood = JNumber (Fin 0), instantiated = True,
                       sourceUid = source_node_identifier d,
                       destinationUid = destination_node_identifier d\<rparr>))
          (Some (mockNodesData @ [\<lparr>data_identifier = ''3'', data_labels = Some [''Product'']\<rparr>]))
          (Some mockEdgesData) fixture_store =
     (Some ([\<lparr>data_identifier = ''3'', data_labels = Some [''Product'']\<rparr>], []),
      fixture_store
        \<lparr>config := fixture_config
           \<lparr>nodes := [(''1'', person_node), (''2'', company_node),
                       (''3'', \<lparr>oid = 10, uid = ''3'', labels = [''Product''],
                                 neighborhood = JNumber (Fin 0), instantiated = True\<rparr>)],
            nodeCount := 3\<rparr>,
         calls :=
           [(5, GraphDataUpdate
                  [person_node, company_node,
                   \<lparr>oid = 10, uid = ''3'', labels = [''Product''],
                     neighborhood = JNumber (Fin 0), instantiated = True\<rparr>]
                  [works_at_edge]
                  [\<lparr>data_identifier = ''3'', data_labels = Some [''Product'']\<rparr>] [],
             fixture_config
               \<lparr>nodes := [(''1'', person_node), (''2'', company_node),
                           (''3'', \<lparr>oid = 10, uid = ''3'', labels = [''Product''],
                                     neighborhood = JNumber (Fin 0), instantiated = True\<rparr>)],
                nodeCount := 3\<rparr>)]\<rparr>) \<and>
   appendGraphData
          (GraphConfig_appendGraphData (GraphObject_constructor 10)
             (\<lambda>d. Inr \<lparr>oid = 11, uid = data_identifier d, labels = [''WORKS_AT''],
                       neighborhood = JNumber (Fin 0), instantiated = True,
                       sourceUid = source_node_identifier d,
                       destinationUid = destination_node_identifier d\<rparr>))
          (Some mockNodesData) (Some mockEdgesData) fixture_store = (None, fixture_store) \<and>
   appendGraphData
          (GraphConfig_appendGraphData (GraphObject_constructor 10)
             (\<lambda>d. Inr \<lparr>oid = 11, uid = data_identifier d, labels = [''WORKS_AT''],
                       neighborhood = JNumber (Fin 0), instantiated = True,
                       sourceUid = source_node_identifier d,
                       destinationUid = destination_node_identifier d\<rparr>))
          None None fixture_store = (None, fixture_store)"
  by (simp add: appendGraphData_def GraphConfig_appendGraphData_def parseObjects_def
      assign_all_def GraphObject_constructor_def notify_def Let_def mockNodesData_def
      mockEdgesData_def fixture_store_def fixture_config_def GraphStore_constructor_def
      get_property_def Object_prototype_keys_def getNodes_def getEdges_def Object_values_def
      Object_keys_def is_array_index_def int_of_digits_def List.map_filter_def
      person_node_def company_node_def works_at_edge_def)

text \<open>
  C2.  By the spec, \<open>appendGraphData\<close> drops the entries whose identifier already exists
  in the live map, and every other entry is delegated to the configuration and
  announced to the listeners.  The code does not do that for an identifier that names
  a member of \<open>Object.prototype\<close>: a batch of one node with the identifier
  \<open>constructor\<close>, which is not a key of the fixture's live map, is dropped as if it
  were present, and the call returns nothing, leaves the store as it is and calls no
  listener, whatever the configuration would do with it; the same node under the
  identifier 3 is kept.
\<close>

theorem appendGraphData_inherited_identifier:
  "''constructor'' \<notin> fst ` set (nodes (config fixture_store)) \<and>
   appendGraphData config_appendGraphData
     (Some [\<lparr>data_identifier = ''constructor'', data_labels = Some [''Person'']\<rparr>])
     (Some []) fixture_store = (None, fixture_store) \<and>
   fst (appendGraphData config_appendGraphData
     (Some [\<lparr>data_identifier = ''3'', data_labels = Some [''Person'']\<rparr>])
     (Some []) fixture_store) =
     Some ([\<lparr>data_identifier = ''3'', data_labels = Some [''Person'']\<rparr>], [])"
  by (simp add: appendGraphData_def notify_def Let_def get_property_def
      Object_prototype_keys_def fixture_store_def fixture_config_def GraphStore_constructor_def)

lemma merged_keys_cover:
  assumes "\<forall>d \<in> set ds. \<exists>ob. f d = Inr ob \<and> instantiated ob"
  shows "filter (\<lambda>d. data_identifier d \<notin>
            fst ` set (assign_all m
              (parseObjects f
                 (filter (\<lambda>d. data_identifier d \<notin> fst ` set m \<and>
                                data_identifier d \<notin> set Object_prototype_keys) ds))) \<and>
            data_identifier d \<notin> set Object_prototype_keys) ds = []"
proof -
  let ?new = "filter (\<lambda>d. data_identifier d \<notin> fst ` set m \<and>
                          data_identifier d \<notin> set Object_prototype_keys) ds"
  have "data_identifier d \<in> fst ` set (assign_all m (parseObjects f ?new)) \<or>
      data_identifier d \<in> set Object_prototype_keys"
    if d: "d \<in> set ds" for d
  proof (cases "data_identifier d \<in> fst ` set m \<or> data_identifier d \<in> set Object_prototype_keys")
    case True
    then show ?thesis by (auto simp add: assign_all_keys)
  next
    case False
    from assms d obtain ob where "f d = Inr ob" and "instantiated ob" by blast
    with d False have "data_identifier d \<in> fst ` set (parseObjects f ?new)"
      unfolding parseObjects_keys by auto
    then show ?thesis by (simp add: assign_all_keys)
  qed
  then show ?thesis by (auto simp add: filter_empty_conv)
qed

text \<open>
  C3.  For a well-formed batch (arrays whose every entry constructs an instantiated
  object), appending the same data a second time leaves \<open>nodeCount\<close> and \<open>edgeCount\<close>
  at their values after the first call; the second call finds nothing new, changes
  nothing and notifies nobody.
\<close>

theorem appendGraphData_idempotent_counts:
  assumes "\<forall>d \<in> set ns. \<exists>n. newNode d = Inr n \<and> instantiated n"
    and "\<forall>d \<in> set es. \<exists>e. newEdge d = Inr e \<and> instantiated e"
  shows "(let append = appendGraphData (GraphConfig_appendGraphData newNode newEdge)
                         (Some ns) (Some es);
              s1 = snd (append s);
              s2 = snd (append s1)
          in nodeCount (config s2) = nodeCount (config s1) \<and>
             edgeCount (config s2) = edgeCount (config s1) \<and>
             append s1 = (None, s1))"
proof -
  let ?A = "GraphConfig_appendGraphData newNode newEdge"
  let ?newNodes = "filter (\<lambda>d. data_identifier d \<notin> fst ` set (nodes (config s)) \<and>
                               data_identifier d \<notin> set Object_prototype_keys) ns"
  let ?newEdges = "filter (\<lambda>d. data_identifier d \<notin> fst ` set (edges (config s)) \<and>
                               data_identifier d \<notin> set Object_prototype_keys) es"
  let ?s1 = "snd (appendGraphData ?A (Some ns) (Some es) s)"
  have again: "appendGraphData ?A (Some ns) (Some es) ?s1 = (None, ?s1)"
  proof (cases "?newNodes = [] \<and> ?newEdges = []")
    case True
    then have "appendGraphData ?A (Some ns) (Some es) s = (None, s)"
      by (simp add: appendGraphData_def pushNew_filter)
    then show ?thesis by simp
  next
    case False
    then have c: "config ?s1 = ?A ?newNodes ?newEdges (config s)"
      by (auto simp add: appendGraphData_def pushNew_filter notify_def Let_def)
    have n: "nodes (config ?s1) =
        assign_all (nodes (config s)) (parseObjects newNode ?newNodes)"
      unfolding c by (simp add: GraphConfig_appendGraphData_def Let_def)
    have e: "edges (config ?s1) =
        assign_all (edges (config s)) (parseObjects newEdge ?newEdges)"
      unfolding c by (simp add: GraphConfig_appendGraphData_def Let_def)
    have fn: "filter (\<lambda>d. data_identifier d \<notin> fst ` set (nodes (config ?s1)) \<and>
                            data_identifier d \<notin> set Object_prototype_keys) ns = []"
      unfolding n by (rule merged_keys_cover [OF assms(1)])
    have fe: "filter (\<lambda>d. data_identifier d \<notin> fst ` set (edges (config ?s1)) \<and>
                            data_identifier d \<notin> set Object_prototype_keys) es = []"
      unfolding e by (rule merged_keys_cover [OF assms(2)])
    show ?thesis
      using fn fe by (simp add: appendGraphData_def [of ?A "Some ns" "Some es" ?s1] pushNew_filter)
  qed
  then show ?thesis by (simp add: Let_def)
qed

text \<open>
  On the fixture's store, a batch of its two nodes and one edge plus a new node and a
  new edge: the counts go from 2 and 1 to 3 and 2 with the first call and stay there
  with the second.
\<close>

theorem appendGraphData_idempotent_counts_witness:
  "(let append = appendGraphData
          (GraphConfig_appendGraphData (GraphObject_constructor 10)
             (\<lambda>d. Inr \<lparr>oid = 11, uid = data_identifier d, labels = [''WORKS_AT''],
                       neighborhood = JNumber (Fin 0), instantiated = True,
                       sourceUid = source_node_identifier d,
                       destinationUid = destination_node_identifier d\<rparr>))
          (Some (mockNodesData @ [\<lparr>data_identifier = ''3'', data_labels = Some [''Product'']\<rparr>]))
          (Some (mockEdgesData @
             [\<lparr>data_identifier = ''edge-2'', data_labels = Some [''WORKS_AT''],
               source_node_identifier = ''3'', destination_node_identifier = ''2''\<rparr>]));
        s1 = snd (append fixture_store);
        s2 = snd (append s1)
    in nodeCount (config fixture_store) = 2 \<and> edgeCount (config fixture_store) = 1 \<and>
       nodeCount (config s1) = 3 \<and> edgeCount (config s1) = 2 \<and>
       nodeCount (config s2) = 3 \<and> edgeCount (config s2) = 2 \<and>
       append s1 = (None, s1))"
proof -
  have wn: "\<forall>d \<in> set (mockNodesData @
        [\<lparr>data_identifier = ''3'', data_labels = Some [''Product'']\<rparr>]).
      \<exists>n. GraphObject_constructor 10 d = Inr n \<and> instantiated n"
    by (simp add: mockNodesData_def GraphObject_constructor_def)
  have we: "\<forall>d \<in> set (mockEdgesData @
        [\<lparr>data_identifier = ''edge-2'', data_labels = Some [''WORKS_AT''],
          source_node_identifier = ''3'', destination_node_identifier = ''2''\<rparr>]).
      \<exists>e. (\<lambda>d. Inr \<lparr>oid = 11, uid = data_identifier d, labels = [''WORKS_AT''],
                       neighborhood = JNumber (Fin 0), instantiated = True,
                       sourceUid = source_node_identifier d,
                       destinationUid = destination_node_identifier d\<rparr> :: error + Edge) d = Inr e \<and>
          instantiated e"
    by simp
  have c: "nodeCount (config (snd (appendGraphData
          (GraphConfig_appendGraphData (GraphObject_constructor 10)
             (\<lambda>d. Inr \<lparr>oid = 11, uid = data_identifier d, labels = [''WORKS_AT''],
                       neighborhood = JNumber (Fin 0), instantiated = True,
                       sourceUid = source_node_identifier d,
                       destinationUid = destination_node_identifier d\<rparr>))
          (Some (mockNodesData @ [\<lparr>data_identifier = ''3'', data_labels = Some [''Product'']\<rparr>]))
          (Some (mockEdgesData @
             [\<lparr>data_identifier = ''edge-2'', data_labels = Some [''WORKS_AT''],
               source_node_identifier = ''3'', destination_node_identifier = ''2''\<rparr>]))
          fixture_store))) = 3 \<and>
     edgeCount (config (snd (appendGraphData
          (GraphConfig_appendGraphData (GraphObject_constructor 10)
             (\<lambda>d. Inr \<lparr>oid = 11, uid = data_identifier d, labels = [''WORKS_AT''],
                       neighborhood = JNumber (Fin 0), instantiated = True,
                       sourceUid = source_node_identifier d,
                       destinationUid = destination_node_identifier d\<rparr>))
          (Some (mockNodesData @ [\<lparr>data_identifier = ''3'', data_labels = Some [''Product'']\<rparr>]))
          (Some (mockEdgesData @
             [\<lparr>data_identifier = ''edge-2'', data_labels = Some [''WORKS_AT''],
               source_node_identifier = ''3'', destination_node_identifier = ''2''\<rparr>]))
          fixture_store))) = 2"
    by (simp add: appendGraphData_def GraphConfig_appendGraphData_def parseObjects_def
      assign_all_def GraphObject_constructor_def notify_def Let_def mockNodesData_def
      mockEdgesData_def fixture_store_def fixture_config_def GraphStore_constructor_def
      get_property_def Object_prototype_keys_def length_Object_keys)
  have f: "nodeCount (config fixture_store) = 2 \<and> edgeCount (config fixture_store) = 1"
    by (simp add: fixture_store_def fixture_config_def GraphStore_constructor_def)
  from appendGraphData_idempotent_counts [OF wn we, of fixture_store] c f
  show ?thesis by (simp add: Let_def)
qed

subsection \<open>Batches with invalid entries, and the ingestion model\<close>

text \<open>
  The counts are stable under resubmission for every batch, well-formed or not: an
  entry that fails construction is delegated again by the second call (its identifier
  never enters the live map) and dropped again by the parser, and an entry whose
  identifier names a member of \<open>Object.prototype\<close> is dropped by the store both times.
\<close>

lemma parseObjects_none_valid_aux:
  "\<forall>d \<in> set ds. \<not> (\<exists>ob. f d = Inr ob \<and> instantiated ob) \<Longrightarrow>
   foldl (\<lambda>parsed d.
              (case f d of
                 Inl e \<Rightarrow> parsed
               | Inr ob \<Rightarrow>
                   if instantiated ob then AList.update (data_identifier d) ob parsed
                   else parsed)) acc ds = acc"
  by (induction ds arbitrary: acc) (auto split: sum.splits)

lemma parseObjects_none_valid:
  "\<forall>d \<in> set ds. \<not> (\<exists>ob. f d = Inr ob \<and> instantiated ob) \<Longrightarrow> parseObjects f ds = []"
  by (simp add: parseObjects_def parseObjects_none_valid_aux)

lemma second_parse_empty:
  "parseObjects f
     (filter (\<lambda>d. data_identifier d \<notin>
         fst ` set (assign_all m
           (parseObjects f
              (filter (\<lambda>d. data_identifier d \<notin> fst ` set m \<and>
                             data_identifier d \<notin> set Object_prototype_keys) ds))) \<and>
         data_identifier d \<notin> set Object_prototype_keys) ds) = []"
proof (rule parseObjects_none_valid, rule ballI, rule notI)
  let ?new = "filter (\<lambda>d. data_identifier d \<notin> fst ` set m \<and>
                          data_identifier d \<notin> set Object_prototype_keys) ds"
  fix d
  assume d: "d \<in> set (filter (\<lambda>d. data_identifier d \<notin>
         fst ` set (assign_all m (parseObjects f ?new)) \<and>
         data_identifier d \<notin> set Object_prototype_keys) ds)"
    and v: "\<exists>ob. f d = Inr ob \<and> instantiated ob"
  from d have ds: "d \<in> set ds" and m: "data_identifier d \<notin> fst ` set m"
    and q: "data_identifier d \<notin> set Object_prototype_keys"
    and p: "data_identifier d \<notin> fst ` set (parseObjects f ?new)"
    by (auto simp add: assign_all_keys)
  from ds m q v have "data_identifier d \<in> fst ` set (parseObjects f ?new)"
    unfolding parseObjects_keys by auto
  with p show False by simp
qed

lemma assign_all_Nil: "assign_all m [] = m"
  by (simp add: assign_all_def)

lemma appendGraphData_counts_stable:
  "nodeCount (config (snd (appendGraphData (GraphConfig_appendGraphData newNode newEdge)
       nodesData edgesData
       (snd (appendGraphData (GraphConfig_appendGraphData newNode newEdge)
          nodesData edgesData s))))) =
   nodeCount (config (snd (appendGraphData (GraphConfig_appendGraphData newNode newEdge)
       nodesData edgesData s))) \<and>
   edgeCount (config (snd (appendGraphData (GraphConfig_appendGraphData newNode newEdge)
       nodesData edgesData
       (snd (appendGraphData (GraphConfig_appendGraphData newNode newEdge)
          nodesData edgesData s))))) =
   edgeCount (config (snd (appendGraphData (GraphConfig_appendGraphData newNode newEdge)
       nodesData edgesData s)))"
proof -
  let ?A = "GraphConfig_appendGraphData newNode newEdge"
  let ?ns = "case nodesData of Some ds \<Rightarrow> ds | None \<Rightarrow> []"
  let ?es = "case edgesData of Some ds \<Rightarrow> ds | None \<Rightarrow> []"
  let ?nn = "\<lambda>s. filter (\<lambda>d. data_identifier d \<notin> fst ` set (nodes (config s)) \<and>
                              data_identifier d \<notin> set Object_prototype_keys) ?ns"
  let ?ne = "\<lambda>s. filter (\<lambda>d. data_identifier d \<notin> fst ` set (edges (config s)) \<and>
                              data_identifier d \<notin> set Object_prototype_keys) ?es"
  let ?s1 = "snd (appendGraphData ?A nodesData edgesData s)"
  let ?s2 = "snd (appendGraphData ?A nodesData edgesData ?s1)"
  have step: "config (snd (appendGraphData ?A nodesData edgesData t)) =
      (if ?nn t = [] \<and> ?ne t = [] then config t else ?A (?nn t) (?ne t) (config t))"
    for t :: "'a GraphStore"
    by (cases nodesData; cases edgesData)
       (simp_all add: appendGraphData_def pushNew_filter notify_def Let_def)
  show ?thesis
  proof (cases "?nn s = [] \<and> ?ne s = []")
    case True
    then have a: "config ?s1 = config s"
      unfolding step by (rule if_P)
    from True have "?nn ?s1 = [] \<and> ?ne ?s1 = []"
      unfolding a .
    then have "config ?s2 = config ?s1"
      unfolding step [of ?s1] by (rule if_P)
    then show ?thesis by simp
  next
    case False
    then have c1: "config ?s1 = ?A (?nn s) (?ne s) (config s)"
      unfolding step by (rule if_not_P)
    have n1: "nodes (config ?s1) = assign_all (nodes (config s)) (parseObjects newNode (?nn s))"
      and e1: "edges (config ?s1) = assign_all (edges (config s)) (parseObjects newEdge (?ne s))"
      and k1: "nodeCount (config ?s1) = length (Object_keys (nodes (config ?s1)))"
      and k2: "edgeCount (config ?s1) = length (Object_keys (edges (config ?s1)))"
      unfolding c1 by (simp_all add: GraphConfig_appendGraphData_def Let_def)
    have pn: "parseObjects newNode (?nn ?s1) = []"
      unfolding n1 by (rule second_parse_empty)
    have pe: "parseObjects newEdge (?ne ?s1) = []"
      unfolding e1 by (rule second_parse_empty)
    show ?thesis
    proof (cases "?nn ?s1 = [] \<and> ?ne ?s1 = []")
      case True
      then have "config ?s2 = config ?s1"
        unfolding step [of ?s1] by (rule if_P)
      then show ?thesis by simp
    next
      case False
      then have c2: "config ?s2 = ?A (?nn ?s1) (?ne ?s1) (config ?s1)"
        unfolding step [of ?s1] by (rule if_not_P)
      show ?thesis
        unfolding c2 using k1 k2 pn pe
        by (simp add: GraphConfig_appendGraphData_def Let_def assign_all_Nil)
    qed
  qed
qed

text \<open>
  The ingestion model agrees with the unit test "nodeCount is updated correctly when
  appending graph data" (one node present, a batch repeating it and adding a second:
  the count is 2), and it keeps the keys of the live maps distinct and the counts
  equal to the number of entries.
\<close>

lemma GraphConfig_appendGraphData_unit_test:
  "nodeCount (GraphConfig_appendGraphData (GraphObject_constructor 10) newEdge
     [\<lparr>data_identifier = ''1'', data_labels = Some [''Person'']\<rparr>,
      \<lparr>data_identifier = ''2'', data_labels = Some [''Company'']\<rparr>] []
     (fixture_config\<lparr>nodes := [(''1'', person_node)], edges := [], nodeCount := 1,
        edgeCount := 0\<rparr>)) = 2"
  by (simp add: GraphConfig_appendGraphData_def parseObjects_def assign_all_def
      GraphObject_constructor_def Let_def length_Object_keys)

lemma GraphConfig_appendGraphData_distinct:
  "distinct (map fst (nodes c)) \<Longrightarrow> distinct (map fst (edges c)) \<Longrightarrow>
   distinct (map fst (nodes (GraphConfig_appendGraphData f g ns es c))) \<and>
   distinct (map fst (edges (GraphConfig_appendGraphData f g ns es c))) \<and>
   nodeCount (GraphConfig_appendGraphData f g ns es c) =
     length (nodes (GraphConfig_appendGraphData f g ns es c)) \<and>
   edgeCount (GraphConfig_appendGraphData f g ns es c) =
     length (edges (GraphConfig_appendGraphData f g ns es c))"
  by (simp add: GraphConfig_appendGraphData_def Let_def assign_all_distinct length_Object_keys)

end
